theory Spec2Isabelle
  imports Complex_Main "HOL-Library.Sublist" "HOL-Library.AList"
begin

section \<open>JavaScript strings\<close>

text \<open>
  A JavaScript string is a sequence of UTF-16 code units. It is modelled as a \<open>string\<close>,
  a list of characters, where the character with code \<open>n\<close> stands for the code unit
  \<open>n\<close>; the model covers the strings whose code units are below 256 (Basic Latin and
  Latin-1 Supplement).

  On these, \<open>toLowerCase\<close> maps the capitals \<open>A\<close> to \<open>Z\<close> (65 to 90) and the
  Latin-1 capitals U+00C0 to U+00DE (192 to 222, the multiplication sign 215 apart)
  to the letter 32 places further on, and leaves every other code unit as it is.
  \<open>trim\<close> and \<open>trimStart\<close> remove the white space and line terminators of
  ECMAScript: tab, line feed, vertical tab, form feed, carriage return, space and the
  no-break space U+00A0 (160).
\<close>

definition lowerChar :: "char \<Rightarrow> char" where
  "lowerChar c =
     (let n = (of_char c :: nat) in
      if (65 \<le> n \<and> n \<le> 90) \<or> (192 \<le> n \<and> n \<le> 222 \<and> n \<noteq> 215) then char_of (n + 32) else c)"

definition toLowerCase :: "string \<Rightarrow> string" where
  "toLowerCase s = map lowerChar s"

definition startsWith :: "string \<Rightarrow> string \<Rightarrow> bool" where
  "startsWith s p = prefix p s"

text \<open>\<open>s.includes(p)\<close>: \<open>p\<close> occurs in \<open>s\<close> as a contiguous substring.\<close>

fun str_includes :: "string \<Rightarrow> string \<Rightarrow> bool" where
  "str_includes [] p = (p = [])"
| "str_includes (c # cs) p = (prefix p (c # cs) \<or> str_includes cs p)"

text \<open>\<open>s.replace(p, r)\<close> with a string pattern: the leftmost occurrence of \<open>p\<close> is
  replaced, nothing else.\<close>

fun str_replace :: "string \<Rightarrow> string \<Rightarrow> string \<Rightarrow> string" where
  "str_replace [] p r = (if p = [] then r else [])"
| "str_replace (c # cs) p r =
     (if prefix p (c # cs) then r @ drop (length p) (c # cs) else c # str_replace cs p r)"

text \<open>\<open>s.split(sep)\<close> for a separator of one character.\<close>

fun str_split :: "char \<Rightarrow> string \<Rightarrow> string list" where
  "str_split sep [] = [[]]"
| "str_split sep (c # cs) =
     (if c = sep then [] # str_split sep cs
      else (case str_split sep cs of [] \<Rightarrow> [[c]] | w # ws \<Rightarrow> (c # w) # ws))"

definition isSpace :: "char \<Rightarrow> bool" where
  "isSpace c = (let n = (of_char c :: nat) in (9 \<le> n \<and> n \<le> 13) \<or> n = 32 \<or> n = 160)"

definition trimStart :: "string \<Rightarrow> string" where
  "trimStart s = dropWhile isSpace s"

definition trim :: "string \<Rightarrow> string" where
  "trim s = rev (dropWhile isSpace (rev (dropWhile isSpace s)))"

section \<open>constants.ts\<close>

definition HTTP_STATUS_TOO_MANY_REQUESTS :: nat where "HTTP_STATUS_TOO_MANY_REQUESTS = 429"

definition URL_PATHS_RESPONSES :: string where
  "URL_PATHS_RESPONSES = ''/responses''"

definition URL_PATHS_CODEX_RESPONSES :: string where
  "URL_PATHS_CODEX_RESPONSES = ''/codex/responses''"

section \<open>fetch-helpers.ts: URL rewrite\<close>

definition rewriteUrlForCodex :: "string \<Rightarrow> string" where
  "rewriteUrlForCodex url = str_replace url URL_PATHS_RESPONSES URL_PATHS_CODEX_RESPONSES"

section \<open>model-map.ts and request-transformer.ts: model normalisation\<close>

text \<open>The own properties of the object \<open>MODEL_MAP\<close>, in the order of the source.\<close>

definition MODEL_MAP :: "(string \<times> string) list" where
  "MODEL_MAP =
    [(''gpt-5.1-codex'', ''gpt-5.1-codex''),
     (''gpt-5.1-codex-low'', ''gpt-5.1-codex''),
     (''gpt-5.1-codex-medium'', ''gpt-5.1-codex''),
     (''gpt-5.1-codex-high'', ''gpt-5.1-codex''),
     (''gpt-5.1-codex-max'', ''gpt-5.1-codex-max''),
     (''gpt-5.1-codex-max-low'', ''gpt-5.1-codex-max''),
     (''gpt-5.1-codex-max-medium'', ''gpt-5.1-codex-max''),
     (''gpt-5.1-codex-max-high'', ''gpt-5.1-codex-max''),
     (''gpt-5.1-codex-max-xhigh'', ''gpt-5.1-codex-max''),
     (''gpt-5.2'', ''gpt-5.2''),
     (''gpt-5.2-none'', ''gpt-5.2''),
     (''gpt-5.2-low'', ''gpt-5.2''),
     (''gpt-5.2-medium'', ''gpt-5.2''),
     (''gpt-5.2-high'', ''gpt-5.2''),
     (''gpt-5.2-xhigh'', ''gpt-5.2''),
     (''gpt-5.2-codex'', ''gpt-5.2-codex''),
     (''gpt-5.2-codex-low'', ''gpt-5.2-codex''),
     (''gpt-5.2-codex-medium'', ''gpt-5.2-codex''),
     (''gpt-5.2-codex-high'', ''gpt-5.2-codex''),
     (''gpt-5.2-codex-xhigh'', ''gpt-5.2-codex''),
     (''gpt-5.1-codex-mini'', ''gpt-5.1-codex-mini''),
     (''gpt-5.1-codex-mini-medium'', ''gpt-5.1-codex-mini''),
     (''gpt-5.1-codex-mini-high'', ''gpt-5.1-codex-mini''),
     (''gpt-5.1'', ''gpt-5.1''),
     (''gpt-5.1-none'', ''gpt-5.1''),
     (''gpt-5.1-low'', ''gpt-5.1''),
     (''gpt-5.1-medium'', ''gpt-5.1''),
     (''gpt-5.1-high'', ''gpt-5.1''),
     (''gpt-5.1-chat-latest'', ''gpt-5.1''),
     (''gpt-5-codex'', ''gpt-5.1-codex''),
     (''codex-mini-latest'', ''gpt-5.1-codex-mini''),
     (''gpt-5-codex-mini'', ''gpt-5.1-codex-mini''),
     (''gpt-5-codex-mini-medium'', ''gpt-5.1-codex-mini''),
     (''gpt-5-codex-mini-high'', ''gpt-5.1-codex-mini''),
     (''gpt-5'', ''gpt-5.1''),
     (''gpt-5-mini'', ''gpt-5.1''),
     (''gpt-5-nano'', ''gpt-5.1'')]"

text \<open>
  \<open>MODEL_MAP\<close> is an object literal, so \<open>MODEL_MAP[k]\<close> also finds the properties that
  every object inherits from \<open>Object.prototype\<close>. Their values are functions, or an
  object for \<open>__proto__\<close>: truthy values that are not strings.
\<close>

definition OBJECT_PROTOTYPE_KEYS :: "string list" where
  "OBJECT_PROTOTYPE_KEYS =
     [''constructor'', ''__defineGetter__'', ''__defineSetter__'', ''hasOwnProperty'',
      ''__lookupGetter__'', ''__lookupSetter__'', ''isPrototypeOf'', ''propertyIsEnumerable'',
      ''toString'', ''valueOf'', ''__proto__'', ''toLocaleString'']"

text \<open>A value found under a key of \<open>MODEL_MAP\<close>: a model name, or the inherited member of
  that key.\<close>

datatype ModelValue = ModelName string | InheritedMember string

text \<open>\<open>getNormalizedModel\<close>: the direct lookup \<open>MODEL_MAP[modelId]\<close>, returned when it is
  truthy (every own value is a non-empty string), then the search of \<open>Object.keys\<close> for a
  key that agrees in lower case.\<close>

definition getNormalizedModel :: "string \<Rightarrow> ModelValue option" where
  "getNormalizedModel modelId =
     (case map_of MODEL_MAP modelId of
        Some v \<Rightarrow> Some (ModelName v)
      | None \<Rightarrow>
          if modelId \<in> set OBJECT_PROTOTYPE_KEYS then Some (InheritedMember modelId)
          else
            (let lower = toLowerCase modelId in
             case find (\<lambda>k. toLowerCase k = lower) (map fst MODEL_MAP) of
               Some k \<Rightarrow> map_option ModelName (map_of MODEL_MAP k)
             | None \<Rightarrow> None))"

text \<open>\<open>normalizeModel\<close>; the argument is \<open>None\<close> for \<open>undefined\<close>. The result is what
  \<open>getNormalizedModel\<close> found, or a model name.\<close>

definition normalizeModel :: "string option \<Rightarrow> ModelValue" where
  "normalizeModel model =
     (case model of
        None \<Rightarrow> ModelName ''gpt-5.1''
      | Some m \<Rightarrow>
          if m = [] then ModelName ''gpt-5.1''
          else
            let modelId = (if str_includes m ''/'' then last (str_split (CHR ''/'') m) else m) in
            case getNormalizedModel modelId of
              Some mapped \<Rightarrow> mapped
            | None \<Rightarrow>
                let n = toLowerCase modelId in
                if str_includes n ''gpt-5.2-codex'' \<or> str_includes n ''gpt 5.2 codex''
                  then ModelName ''gpt-5.2-codex''
                else if str_includes n ''gpt-5.2'' \<or> str_includes n ''gpt 5.2'' then ModelName ''gpt-5.2''
                else if str_includes n ''gpt-5.1-codex-max'' \<or> str_includes n ''gpt 5.1 codex max''
                  then ModelName ''gpt-5.1-codex-max''
                else if str_includes n ''gpt-5.1-codex-mini'' \<or> str_includes n ''gpt 5.1 codex mini''
                  then ModelName ''gpt-5.1-codex-mini''
                else if str_includes n ''codex-mini-latest'' \<or> str_includes n ''gpt-5-codex-mini''
                        \<or> str_includes n ''gpt 5 codex mini''
                  then ModelName ''codex-mini-latest''
                else if str_includes n ''gpt-5.1-codex'' \<or> str_includes n ''gpt 5.1 codex''
                  then ModelName ''gpt-5.1-codex''
                else if str_includes n ''gpt-5.1'' \<or> str_includes n ''gpt 5.1'' then ModelName ''gpt-5.1''
                else if str_includes n ''codex'' then ModelName ''gpt-5.1-codex''
                else if str_includes n ''gpt-5'' \<or> str_includes n ''gpt 5'' then ModelName ''gpt-5.1''
                else ModelName ''gpt-5.1'')"


section \<open>JSON values and the platform functions\<close>

text \<open>
  A value produced by \<open>JSON.parse\<close>. An object is the list of its properties in order.
  A property that is absent (\<open>undefined\<close>) is \<open>None\<close> wherever a value is optional.
\<close>

datatype json =
    JNull
  | JBool bool
  | JNum real
  | JStr string
  | JArr "json list"
  | JObj "(string \<times> json) list"

text \<open>\<open>v.k\<close> on a value that is not \<open>null\<close>: only objects carry the properties read here.\<close>

fun getProp :: "json \<Rightarrow> string \<Rightarrow> json option" where
  "getProp (JObj kvs) k = map_of kvs k"
| "getProp _ k = None"



text \<open>Truthiness of a value; \<open>undefined\<close> is \<open>None\<close>.\<close>

fun truthy :: "json option \<Rightarrow> bool" where
  "truthy None = False"
| "truthy (Some JNull) = False"
| "truthy (Some (JBool b)) = b"
| "truthy (Some (JNum n)) = (n \<noteq> 0)"
| "truthy (Some (JStr s)) = (s \<noteq> [])"
| "truthy (Some (JArr xs)) = True"
| "truthy (Some (JObj kvs)) = True"

text \<open>
  \<open>JSON.parse\<close>, \<open>JSON.stringify\<close> and \<open>toString\<close> on a value that is not a string belong to
  the platform, not to the repository. The functions below take them as parameters:
  \<open>parse\<close> gives \<open>None\<close> where \<open>JSON.parse\<close> throws.
\<close>

record platform =
  JSON_parse :: "string \<Rightarrow> json option"
  JSON_stringify :: "json \<Rightarrow> string"
  toString :: "json \<Rightarrow> string"

definition valueToString :: "platform \<Rightarrow> json \<Rightarrow> string" where
  "valueToString pf v = (case v of JStr s \<Rightarrow> s | _ \<Rightarrow> toString pf v)"

section \<open>Responses\<close>

text \<open>
  A \<open>Response\<close>: status line, headers (names in lower case) and body. The body is
  absent (\<open>null\<close>), a stream of text chunks, or a stream whose reading fails.
\<close>

datatype ResponseBody = NullBody | Stream "string list" | BrokenStream

record Response =
  status :: nat
  statusText :: string
  headers :: "(string \<times> string) list"
  body :: ResponseBody

datatype error = TypeError | RangeError | NoBodyError | StreamError

definition headers_has :: "(string \<times> string) list \<Rightarrow> string \<Rightarrow> bool" where
  "headers_has h k = (map_of h (toLowerCase k) \<noteq> None)"

definition headers_set :: "(string \<times> string) list \<Rightarrow> string \<Rightarrow> string \<Rightarrow> (string \<times> string) list" where
  "headers_set h k v = AList.update (toLowerCase k) v h"

text \<open>
  \<open>new Response(body, { status, statusText, headers })\<close>, as the Fetch standard
  initialises a response: a status outside 200 to 599 throws a \<open>RangeError\<close>; a body with
  a null body status (101, 103, 204, 205, 304) throws a \<open>TypeError\<close>; a body that is a
  string comes with the content type \<open>text/plain;charset=UTF-8\<close>, which is added to the
  headers when they have no \<open>content-type\<close>; a body that is a stream comes with no
  content type (\<open>None\<close> below). The status texts passed in this program are those of
  received responses and the constant \<open>Too Many Requests\<close>, which are reason phrases,
  so the check of the status text never throws.
\<close>

definition nullBodyStatus :: "nat \<Rightarrow> bool" where
  "nullBodyStatus s = (s = 101 \<or> s = 103 \<or> s = 204 \<or> s = 205 \<or> s = 304)"

definition newResponse ::
  "ResponseBody \<Rightarrow> string option \<Rightarrow> nat \<Rightarrow> string \<Rightarrow> (string \<times> string) list
     \<Rightarrow> error + Response" where
  "newResponse bd contentType st stText hdrs =
     (if st < 200 \<or> 599 < st then Inl RangeError
      else if bd \<noteq> NullBody \<and> nullBodyStatus st then Inl TypeError
      else Inr \<lparr>status = st, statusText = stText,
                headers = (case contentType of
                             None \<Rightarrow> hdrs
                           | Some ct \<Rightarrow>
                               if bd \<noteq> NullBody \<and> \<not> headers_has hdrs ''content-type''
                               then headers_set hdrs ''content-type'' ct else hdrs),
                body = bd\<rparr>)"

definition TEXT_PLAIN :: string where
  "TEXT_PLAIN = ''text/plain;charset=UTF-8''"


section \<open>fetch-helpers.ts: classification and the 404 remap\<close>

datatype RateLimitReason = RATE_LIMIT_EXCEEDED | USAGE_LIMIT_REACHED | SERVER_ERROR | UNKNOWN






section \<open>The 404 remap as the specification words it\<close>





section \<open>response-handler.ts: SSE to JSON\<close>

text \<open>The loop of \<open>parseSseStream\<close> over the lines. The result is \<open>Some JNull\<close> for the
  \<open>null\<close> returned when no line matches, and \<open>None\<close> when the matching event has no
  \<open>response\<close> property (\<open>undefined\<close>). Reading \<open>type\<close> of a parsed \<open>null\<close> throws inside
  the \<open>try\<close>, so the line is skipped.\<close>

fun parseSseLines :: "platform \<Rightarrow> string list \<Rightarrow> json option" where
  "parseSseLines pf [] = Some JNull"
| "parseSseLines pf (line # rest) =
     (if startsWith line ''data: '' then
        (case JSON_parse pf (drop 6 line) of
           None \<Rightarrow> parseSseLines pf rest
         | Some JNull \<Rightarrow> parseSseLines pf rest
         | Some data \<Rightarrow>
             if getProp data ''type'' = Some (JStr ''response.done'')
                \<or> getProp data ''type'' = Some (JStr ''response.completed'')
             then getProp data ''response''
             else parseSseLines pf rest)
      else parseSseLines pf rest)"

definition parseSseStream :: "platform \<Rightarrow> string \<Rightarrow> json option" where
  "parseSseStream pf sseText = parseSseLines pf (str_split (CHR 0x0A) sseText)"

definition convertSseToJson ::
  "platform \<Rightarrow> Response \<Rightarrow> (string \<times> string) list \<Rightarrow> error + Response" where
  "convertSseToJson pf response hdrs =
     (case body response of
        NullBody \<Rightarrow> Inl NoBodyError
      | BrokenStream \<Rightarrow> Inl StreamError
      | Stream chunks \<Rightarrow>
          let fullText = concat chunks;
              finalResponse = parseSseStream pf fullText
          in if \<not> truthy finalResponse then
               newResponse (Stream [fullText]) (Some TEXT_PLAIN)
                 (status response) (statusText response) hdrs
             else
               let jsonHeaders = headers_set hdrs ''content-type'' ''application/json; charset=utf-8''
               in newResponse (Stream [JSON_stringify pf (the finalResponse)]) (Some TEXT_PLAIN)
                    (status response) (statusText response) jsonHeaders)"

definition ensureContentType :: "(string \<times> string) list \<Rightarrow> (string \<times> string) list" where
  "ensureContentType h =
     (if \<not> headers_has h ''content-type''
      then headers_set h ''content-type'' ''text/event-stream; charset=utf-8'' else h)"

definition handleSuccessResponse :: "platform \<Rightarrow> Response \<Rightarrow> bool \<Rightarrow> error + Response" where
  "handleSuccessResponse pf response isStreaming =
     (let responseHeaders = ensureContentType (headers response) in
      if \<not> isStreaming then convertSseToJson pf response responseHeaders
      else newResponse (body response) None (status response) (statusText response)
             responseHeaders)"

text \<open>The values of the platform functions on the texts used in the examples of this
  theory; every other text is rejected by this \<open>JSON_parse\<close>.\<close>

definition sse_done_a :: json where
  "sse_done_a = JObj [(''type'', JStr ''response.done''),
                      (''response'', JObj [(''id'', JStr ''a'')])]"

definition sse_completed_b :: json where
  "sse_completed_b = JObj [(''type'', JStr ''response.completed''),
                           (''response'', JObj [(''id'', JStr ''b'')])]"

definition sse_completed_null :: json where
  "sse_completed_null = JObj [(''type'', JStr ''response.completed''), (''response'', JNull)]"

text \<open>Three bodies of a 404 response. In the first the code \<open>usage_limit_reached\<close> is
  written with the JSON escape of U+005F (a reverse solidus, then \<open>u005f\<close>) for its first
  underscore, so the text of the body contains none of the patterns and the parsed code
  does. In the second the code is \<open>null\<close> and the type is \<open>Usage Limit\<close>, written with
  the JSON escape of U+0020 for the space. The third has no \<open>error\<close>.\<close>

definition body_escaped_code :: string where
  "body_escaped_code =
     ''{\"error\":{\"code\":\"usage'' @ [CHR 0x5C] @ ''u005flimit_reached\"}}''"

definition body_error_type :: string where
  "body_error_type =
     ''{\"error\":{\"code\":null,\"type\":\"Usage'' @ [CHR 0x5C] @ ''u0020Limit\"}}''"

definition body_no_error :: string where
  "body_no_error = ''{\"detail\":\"Not Found\"}''"

definition examplePlatform :: platform where
  "examplePlatform =
     \<lparr>JSON_parse = map_of
        [(''{\"error\":{\"code\":\"usage_limit_reached\"}}'',
            JObj [(''error'', JObj [(''code'', JStr ''usage_limit_reached'')])]),
         (body_escaped_code,
            JObj [(''error'', JObj [(''code'', JStr ''usage_limit_reached'')])]),
         (body_error_type,
            JObj [(''error'', JObj [(''code'', JNull), (''type'', JStr ''Usage Limit'')])]),
         (body_no_error, JObj [(''detail'', JStr ''Not Found'')]),
         (''{\"type\":\"response.completed\",\"response\":null}'', sse_completed_null),
         (''{\"type\":\"response.done\",\"response\":{\"id\":\"a\"}}'', sse_done_a),
         (''{\"type\":\"response.completed\",\"response\":{\"id\":\"b\"}}'', sse_completed_b),
         (''{\"type\":\"response.output_text.delta\",\"delta\":\"hi\"}'',
            JObj [(''type'', JStr ''response.output_text.delta''), (''delta'', JStr ''hi'')])],
      JSON_stringify = (\<lambda>v. case v of
           JObj [(''id'', JStr i)] \<Rightarrow> ''{\"id\":\"'' @ i @ ''\"}''
         | JStr s \<Rightarrow> ''\"'' @ s @ ''\"''
         | _ \<Rightarrow> ''null''),
      toString = (\<lambda>v. ''[object Object]'')\<rparr>"

text \<open>A line that ends the loop of \<open>parseSseStream\<close>, and the value the loop returns
  on it.\<close>

definition isCompletionLine :: "platform \<Rightarrow> string \<Rightarrow> bool" where
  "isCompletionLine pf line =
     (startsWith line ''data: '' \<and>
      (case JSON_parse pf (drop 6 line) of
         None \<Rightarrow> False
       | Some d \<Rightarrow> d \<noteq> JNull \<and>
           (getProp d ''type'' = Some (JStr ''response.done'')
            \<or> getProp d ''type'' = Some (JStr ''response.completed''))))"

definition lineResponse :: "platform \<Rightarrow> string \<Rightarrow> json option" where
  "lineResponse pf line =
     (case JSON_parse pf (drop 6 line) of None \<Rightarrow> None | Some d \<Rightarrow> getProp d ''response'')"

definition line_delta :: string where
  "line_delta = ''data: {\"type\":\"response.output_text.delta\",\"delta\":\"hi\"}''"

definition line_done_a :: string where
  "line_done_a = ''data: {\"type\":\"response.done\",\"response\":{\"id\":\"a\"}}''"

definition line_completed_null :: string where
  "line_completed_null = ''data: {\"type\":\"response.completed\",\"response\":null}''"

definition line_completed_b :: string where
  "line_completed_b = ''data: {\"type\":\"response.completed\",\"response\":{\"id\":\"b\"}}''"

definition response200 :: "string list \<Rightarrow> Response" where
  "response200 chunks = \<lparr>status = 200, statusText = ''OK'', headers = [], body = Stream chunks\<rparr>"


section \<open>types.ts: input items\<close>

text \<open>
  An input item: the properties the code reads, each optional one \<open>None\<close> when absent,
  and the remaining properties in \<open>extras\<close>.
\<close>

record InputItem =
  item_id :: "json option"
  item_type :: string
  role :: "string option"
  content :: "json option"
  call_id :: "json option"
  name :: "json option"
  item_output :: "json option"
  extras :: "(string \<times> json) list"

section \<open>input-utils.ts\<close>

fun str_join :: "string \<Rightarrow> string list \<Rightarrow> string" where
  "str_join sep [] = []"
| "str_join sep [x] = x"
| "str_join sep (x # y # ys) = x @ sep @ str_join sep (y # ys)"

fun indexOf :: "string \<Rightarrow> string \<Rightarrow> nat option" where
  "indexOf [] p = (if p = [] then Some 0 else None)"
| "indexOf (c # cs) p =
     (if prefix p (c # cs) then Some 0 else map_option Suc (indexOf cs p))"

definition OPENCODE_PROMPT_SIGNATURES :: "string list" where
  "OPENCODE_PROMPT_SIGNATURES = map toLowerCase
     [''you are a coding agent running in the opencode'',
      ''you are opencode, an agent'',
      ''you are opencode, an interactive cli agent'',
      ''you are opencode, an interactive cli tool'',
      ''you are opencode, the best coding agent on the planet'']"

definition OPENCODE_CONTEXT_MARKERS :: "string list" where
  "OPENCODE_CONTEXT_MARKERS = map toLowerCase
     [''here is some useful information about the environment you are running in:'',
      ''<env>'',
      ''instructions from:'',
      ''<instructions>'']"

text \<open>\<open>getContentText\<close>. Reading \<open>c.type\<close> of an array element that is \<open>null\<close> throws.\<close>

definition getContentText :: "platform \<Rightarrow> InputItem \<Rightarrow> error + string" where
  "getContentText pf item =
     (case content item of
        Some (JStr s) \<Rightarrow> Inr s
      | Some (JArr cs) \<Rightarrow>
          if JNull \<in> set cs then Inl TypeError
          else Inr (str_join [CHR 0x0A]
                 (map (\<lambda>c. valueToString pf (the (getProp c ''text'')))
                    (filter (\<lambda>c. getProp c ''type'' = Some (JStr ''input_text'')
                                 \<and> truthy (getProp c ''text'')) cs)))
      | _ \<Rightarrow> Inr [])"

definition replaceContentText :: "InputItem \<Rightarrow> string \<Rightarrow> InputItem" where
  "replaceContentText item txt =
     (case content item of
        Some (JStr s) \<Rightarrow> item\<lparr>content := Some (JStr txt)\<rparr>
      | Some (JArr cs) \<Rightarrow>
          item\<lparr>content := Some (JArr [JObj [(''type'', JStr ''input_text''), (''text'', JStr txt)]])\<rparr>
      | _ \<Rightarrow> item\<lparr>content := Some (JStr txt)\<rparr>)"

definition extractOpenCodeContext :: "string \<Rightarrow> string option" where
  "extractOpenCodeContext txt =
     (let lower = toLowerCase txt;
          earliest = fold (\<lambda>marker earliest.
                       case indexOf lower marker of
                         None \<Rightarrow> earliest
                       | Some idx \<Rightarrow>
                           (case earliest of None \<Rightarrow> Some idx
                            | Some e \<Rightarrow> if idx < e then Some idx else Some e))
                     OPENCODE_CONTEXT_MARKERS None
      in case earliest of None \<Rightarrow> None | Some e \<Rightarrow> Some (trimStart (drop e txt)))"

definition isOpenCodeSystemPrompt :: "platform \<Rightarrow> InputItem \<Rightarrow> string option \<Rightarrow> error + bool" where
  "isOpenCodeSystemPrompt pf item cachedPrompt =
     (if \<not> (role item = Some ''developer'' \<or> role item = Some ''system'') then Inr False
      else case getContentText pf item of
        Inl e \<Rightarrow> Inl e
      | Inr contentText \<Rightarrow>
          if contentText = [] then Inr False
          else
            let viaCache =
                  (case cachedPrompt of
                     None \<Rightarrow> False
                   | Some cached \<Rightarrow>
                       cached \<noteq> [] \<and>
                       (let ct = trim contentText; cp = trim cached in
                        ct = cp \<or> startsWith ct cp \<or> take 200 ct = take 200 cp));
                normalized = toLowerCase (trimStart contentText)
            in Inr (viaCache \<or> (\<exists>sig \<in> set OPENCODE_PROMPT_SIGNATURES. startsWith normalized sig)))"

fun filterOpenCodeSystemPromptsWithCachedPrompt ::
  "platform \<Rightarrow> InputItem list \<Rightarrow> string option \<Rightarrow> error + InputItem list" where
  "filterOpenCodeSystemPromptsWithCachedPrompt pf [] cachedPrompt = Inr []"
| "filterOpenCodeSystemPromptsWithCachedPrompt pf (item # rest) cachedPrompt =
     (let kept =
        (if role item = Some ''user'' then Inr [item]
         else case isOpenCodeSystemPrompt pf item cachedPrompt of
           Inl e \<Rightarrow> Inl e
         | Inr False \<Rightarrow> Inr [item]
         | Inr True \<Rightarrow>
             (case getContentText pf item of
                Inl e \<Rightarrow> Inl e
              | Inr contentText \<Rightarrow>
                  (case extractOpenCodeContext contentText of
                     None \<Rightarrow> Inr []
                   | Some preserved \<Rightarrow>
                       if preserved \<noteq> [] then Inr [replaceContentText item preserved]
                       else Inr [])))
      in case kept of
           Inl e \<Rightarrow> Inl e
         | Inr xs \<Rightarrow>
             (case filterOpenCodeSystemPromptsWithCachedPrompt pf rest cachedPrompt of
                Inl e \<Rightarrow> Inl e
              | Inr ys \<Rightarrow> Inr (xs @ ys)))"

definition getCallId :: "InputItem \<Rightarrow> string option" where
  "getCallId item =
     (case call_id item of
        Some (JStr rawId) \<Rightarrow> (let trimmed = trim rawId in if trimmed \<noteq> [] then Some trimmed else None)
      | _ \<Rightarrow> None)"

text \<open>\<open>convertOrphanedOutputToMessage\<close>. For an item without \<open>output\<close>,
  \<open>JSON.stringify(undefined)\<close> is \<open>undefined\<close> and reading its \<open>length\<close> throws.\<close>

definition convertOrphanedOutputToMessage ::
  "platform \<Rightarrow> InputItem \<Rightarrow> string option \<Rightarrow> error + InputItem" where
  "convertOrphanedOutputToMessage pf item callId =
     (let toolName = (case name item of Some (JStr n) \<Rightarrow> n | _ \<Rightarrow> ''tool'') in
      case item_output item of
        None \<Rightarrow> Inl TypeError
      | Some out \<Rightarrow>
          let txt = (case out of JStr s \<Rightarrow> s | _ \<Rightarrow> JSON_stringify pf out);
              txt = (if length txt > 16000 then take 16000 txt @ [CHR 0x0A] @ ''...[truncated]''
                     else txt)
          in Inr \<lparr>item_id = None, item_type = ''message'', role = Some ''assistant'',
                  content = Some (JStr (''[Previous '' @ toolName @ '' result; call_id=''
                       @ (case callId of Some c \<Rightarrow> c | None \<Rightarrow> ''unknown'') @ '']: '' @ txt)),
                  call_id = None, name = None, item_output = None, extras = []\<rparr>)"

text \<open>The first loop of \<open>normalizeOrphanedToolOutputs\<close>: the three sets of call ids.\<close>

definition collectCallIds :: "InputItem list \<Rightarrow> string set \<times> string set \<times> string set" where
  "collectCallIds inp =
     fold (\<lambda>item (functionCallIds, localShellCallIds, customToolCallIds).
             case getCallId item of
               None \<Rightarrow> (functionCallIds, localShellCallIds, customToolCallIds)
             | Some callId \<Rightarrow>
                 if item_type item = ''function_call''
                   then (insert callId functionCallIds, localShellCallIds, customToolCallIds)
                 else if item_type item = ''local_shell_call''
                   then (functionCallIds, insert callId localShellCallIds, customToolCallIds)
                 else if item_type item = ''custom_tool_call''
                   then (functionCallIds, localShellCallIds, insert callId customToolCallIds)
                 else (functionCallIds, localShellCallIds, customToolCallIds))
          inp ({}, {}, {})"

text \<open>\<open>!cid || !ids.has(cid)\<close>.\<close>

definition missingFrom :: "string option \<Rightarrow> string set \<Rightarrow> bool" where
  "missingFrom cid ids = (case cid of None \<Rightarrow> True | Some c \<Rightarrow> c \<notin> ids)"

definition normalizeItem ::
  "platform \<Rightarrow> string set \<times> string set \<times> string set \<Rightarrow> InputItem \<Rightarrow> error + InputItem" where
  "normalizeItem pf ids item =
     (case ids of (functionCallIds, localShellCallIds, customToolCallIds) \<Rightarrow>
        let cid = getCallId item in
        if item_type item = ''function_call_output''
           \<and> (cid = None \<or> (missingFrom cid functionCallIds \<and> missingFrom cid localShellCallIds))
          then convertOrphanedOutputToMessage pf item cid
        else if item_type item = ''custom_tool_call_output'' \<and> missingFrom cid customToolCallIds
          then convertOrphanedOutputToMessage pf item cid
        else if item_type item = ''local_shell_call_output'' \<and> missingFrom cid localShellCallIds
          then convertOrphanedOutputToMessage pf item cid
        else Inr item)"

fun mapItems :: "(InputItem \<Rightarrow> error + InputItem) \<Rightarrow> InputItem list \<Rightarrow> error + InputItem list" where
  "mapItems f [] = Inr []"
| "mapItems f (item # rest) =
     (case f item of
        Inl e \<Rightarrow> Inl e
      | Inr x \<Rightarrow> (case mapItems f rest of Inl e \<Rightarrow> Inl e | Inr xs \<Rightarrow> Inr (x # xs)))"

definition normalizeOrphanedToolOutputs :: "platform \<Rightarrow> InputItem list \<Rightarrow> error + InputItem list" where
  "normalizeOrphanedToolOutputs pf inp = mapItems (normalizeItem pf (collectCallIds inp)) inp"

section \<open>Orphan repair as the specification words it\<close>

text \<open>The call ids (trimmed, not empty) of the items of one type.\<close>

definition callIdsOfType :: "string \<Rightarrow> InputItem list \<Rightarrow> string set" where
  "callIdsOfType ty inp =
     (\<Union>item \<in> set inp. if item_type item = ty
                          then (case getCallId item of Some c \<Rightarrow> {c} | None \<Rightarrow> {}) else {})"

text \<open>An output item whose call id is missing or absent from the ids of the call type of
  the same name, as C3 states it.\<close>

definition claimedOrphan :: "InputItem list \<Rightarrow> InputItem \<Rightarrow> bool" where
  "claimedOrphan inp item =
     ((item_type item = ''function_call_output''
         \<and> missingFrom (getCallId item) (callIdsOfType ''function_call'' inp))
      \<or> (item_type item = ''local_shell_call_output''
         \<and> missingFrom (getCallId item) (callIdsOfType ''local_shell_call'' inp))
      \<or> (item_type item = ''custom_tool_call_output''
         \<and> missingFrom (getCallId item) (callIdsOfType ''custom_tool_call'' inp)))"

text \<open>The same, with a \<open>function_call_output\<close> matched against the ids of
  \<open>function_call\<close> and of \<open>local_shell_call\<close> items.\<close>

definition isOrphan :: "InputItem list \<Rightarrow> InputItem \<Rightarrow> bool" where
  "isOrphan inp item =
     ((item_type item = ''function_call_output''
         \<and> missingFrom (getCallId item)
              (callIdsOfType ''function_call'' inp \<union> callIdsOfType ''local_shell_call'' inp))
      \<or> (item_type item = ''local_shell_call_output''
         \<and> missingFrom (getCallId item) (callIdsOfType ''local_shell_call'' inp))
      \<or> (item_type item = ''custom_tool_call_output''
         \<and> missingFrom (getCallId item) (callIdsOfType ''custom_tool_call'' inp)))"

text \<open>The output as a string, cut at 16000 characters.\<close>

definition outputText :: "platform \<Rightarrow> json \<Rightarrow> string" where
  "outputText pf out =
     (let s = (case out of JStr s \<Rightarrow> s | _ \<Rightarrow> JSON_stringify pf out)
      in if length s > 16000 then take 16000 s @ [CHR 0x0A] @ ''...[truncated]'' else s)"

text \<open>The assistant message
  \<open>[Previous <toolName> result; call_id=<id|unknown>]: <output>\<close>.\<close>

definition orphanMessage :: "platform \<Rightarrow> InputItem \<Rightarrow> InputItem" where
  "orphanMessage pf item =
     \<lparr>item_id = None, item_type = ''message'', role = Some ''assistant'',
      content = Some (JStr (''[Previous ''
          @ (case name item of Some (JStr n) \<Rightarrow> n | _ \<Rightarrow> ''tool'')
          @ '' result; call_id=''
          @ (case getCallId item of Some c \<Rightarrow> c | None \<Rightarrow> ''unknown'')
          @ '']: '' @ outputText pf (the (item_output item)))),
      call_id = None, name = None, item_output = None, extras = []\<rparr>"

definition shellCallX :: InputItem where
  "shellCallX = \<lparr>item_id = None, item_type = ''local_shell_call'', role = None, content = None,
     call_id = Some (JStr ''X''), name = None, item_output = None, extras = []\<rparr>"

definition functionCallX :: InputItem where
  "functionCallX = shellCallX\<lparr>item_type := ''function_call''\<rparr>"

definition functionOutput :: "string \<Rightarrow> InputItem" where
  "functionOutput cid = \<lparr>item_id = None, item_type = ''function_call_output'', role = None,
     content = None, call_id = Some (JStr cid), name = None, item_output = Some (JStr ''hi''),
     extras = []\<rparr>"

section \<open>types.ts: configuration and request body\<close>

text \<open>
  A property of an options object: missing (not an own property of the object), an own
  property whose value is \<open>undefined\<close> or \<open>null\<close>, or an own property with a value. Reading the
  property gives \<open>undefined\<close> or \<open>null\<close> in the first two cases; object spread copies
  the property in the last two.
\<close>

datatype 'a property = Missing | Nullish | Value 'a

definition propValue :: "'a property \<Rightarrow> 'a option" where
  "propValue p = (case p of Value v \<Rightarrow> Some v | _ \<Rightarrow> None)"

record ConfigOptions =
  reasoningEffort :: "string property"
  reasoningSummary :: "string property"
  textVerbosity :: "string property"
  include_opt :: "string list property"

record ReasoningConfig =
  effort :: string
  summary :: string

text \<open>\<open>Partial<ReasoningConfig>\<close> and the \<open>text\<close> object of a body.\<close>

record PartialReasoningConfig =
  effort_opt :: "string option"
  summary_opt :: "string option"

record TextConfig =
  verbosity :: "string option"

text \<open>\<open>UserConfig\<close>: \<open>model_options name\<close> is \<open>models?.[name]?.options\<close>.\<close>

record UserConfig =
  global_options :: ConfigOptions
  model_options :: "string \<Rightarrow> ConfigOptions option"

text \<open>The request body: the fields the transformer reads or writes (\<open>text_cfg\<close> is
  \<open>text\<close>, \<open>include_list\<close> is \<open>include\<close>, \<open>providerOptions_openai\<close> is
  \<open>providerOptions?.openai\<close>) and the other properties in \<open>body_extras\<close>. The field
  \<open>model\<close> holds what \<open>normalizeModel\<close> returned once the transformer has assigned it,
  so its type is that of the values of \<open>normalizeModel\<close>.\<close>

record RequestBody =
  model :: "ModelValue option"
  store :: "bool option"
  stream :: "bool option"
  instructions :: "string option"
  input :: "InputItem list option"
  tools :: "json option"
  reasoning :: "PartialReasoningConfig option"
  text_cfg :: "TextConfig option"
  include_list :: "string list option"
  providerOptions_openai :: "ConfigOptions option"
  prompt_cache_key :: "string option"
  max_output_tokens :: "real option"
  max_completion_tokens :: "real option"
  body_extras :: "(string \<times> json) list"

text \<open>Texts of the repository that the transformer inserts, and the prompt that
  \<open>getOpenCodeCodexPrompt\<close> fetches (\<open>None\<close> when the fetch throws).\<close>

record prompts =
  CODEX_OPENCODE_BRIDGE :: string
  TOOL_REMAP_MESSAGE :: string
  openCodeCodexPrompt :: "string option"

section \<open>request-transformer.ts\<close>

definition emptyOptions :: ConfigOptions where
  "emptyOptions = \<lparr>reasoningEffort = Missing, reasoningSummary = Missing,
                    textVerbosity = Missing, include_opt = Missing\<rparr>"

text \<open>\<open>{ ...a, ...b }\<close> on options: every own property of \<open>b\<close> replaces the property of
  \<open>a\<close>, also when its value is \<open>undefined\<close> or \<open>null\<close>.\<close>

definition spreadProperty :: "'a property \<Rightarrow> 'a property \<Rightarrow> 'a property" where
  "spreadProperty pa pb = (case pb of Missing \<Rightarrow> pa | _ \<Rightarrow> pb)"

definition spreadOptions :: "ConfigOptions \<Rightarrow> ConfigOptions \<Rightarrow> ConfigOptions" where
  "spreadOptions a b =
     \<lparr>reasoningEffort = spreadProperty (reasoningEffort a) (reasoningEffort b),
      reasoningSummary = spreadProperty (reasoningSummary a) (reasoningSummary b),
      textVerbosity = spreadProperty (textVerbosity a) (textVerbosity b),
      include_opt = spreadProperty (include_opt a) (include_opt b)\<rparr>"

definition getModelConfig :: "string \<Rightarrow> UserConfig \<Rightarrow> ConfigOptions" where
  "getModelConfig modelName userConfig =
     (let globalOptions = global_options userConfig;
          modelOptions = (case model_options userConfig modelName of
                            Some opts \<Rightarrow> opts | None \<Rightarrow> emptyOptions)
      in spreadOptions globalOptions modelOptions)"

text \<open>\<open>s || d\<close> on an optional string.\<close>

definition orElse :: "string option \<Rightarrow> string \<Rightarrow> string" where
  "orElse s d = (case s of Some v \<Rightarrow> if v \<noteq> [] then v else d | None \<Rightarrow> d)"

definition getReasoningConfig :: "string option \<Rightarrow> ConfigOptions \<Rightarrow> ReasoningConfig" where
  "getReasoningConfig modelName userConfig =
     (let n = (case modelName of Some m \<Rightarrow> toLowerCase m | None \<Rightarrow> []);
          isGpt52Codex = (str_includes n ''gpt-5.2-codex'' \<or> str_includes n ''gpt 5.2 codex'');
          isGpt52General = ((str_includes n ''gpt-5.2'' \<or> str_includes n ''gpt 5.2'')
                            \<and> \<not> isGpt52Codex);
          isCodexMax = (str_includes n ''codex-max'' \<or> str_includes n ''codex max'');
          isCodexMini = (str_includes n ''codex-mini'' \<or> str_includes n ''codex mini''
                         \<or> str_includes n ''codex_mini'' \<or> str_includes n ''codex-mini-latest'');
          isCodex = (str_includes n ''codex'' \<and> \<not> isCodexMini);
          isLightweight = (\<not> isCodexMini \<and> (str_includes n ''nano'' \<or> str_includes n ''mini''));
          isGpt51General = ((str_includes n ''gpt-5.1'' \<or> str_includes n ''gpt 5.1'')
                            \<and> \<not> isCodex \<and> \<not> isCodexMax \<and> \<not> isCodexMini);
          supportsXhigh = (isGpt52General \<or> isGpt52Codex \<or> isCodexMax);
          supportsNone = (isGpt52General \<or> isGpt51General);
          defaultEffort = (if isCodexMini then ''medium''
                           else if supportsXhigh then ''high''
                           else if isLightweight then ''minimal''
                           else ''medium'');
          e0 = orElse (propValue (reasoningEffort userConfig)) defaultEffort;
          e1 = (if isCodexMini then
                  (let a = (if e0 = ''minimal'' \<or> e0 = ''low'' \<or> e0 = ''none'' then ''medium'' else e0);
                       b = (if a = ''xhigh'' then ''high'' else a)
                   in if b \<noteq> ''high'' \<and> b \<noteq> ''medium'' then ''medium'' else b)
                else e0);
          e2 = (if \<not> supportsXhigh \<and> e1 = ''xhigh'' then ''high'' else e1);
          e3 = (if \<not> supportsNone \<and> e2 = ''none'' then ''low'' else e2);
          e4 = (if e3 = ''minimal'' then ''low'' else e3)
      in \<lparr>effort = e4, summary = orElse (propValue (reasoningSummary userConfig)) ''auto''\<rparr>)"

definition resolveReasoningConfig ::
  "string \<Rightarrow> ConfigOptions \<Rightarrow> RequestBody \<Rightarrow> ReasoningConfig" where
  "resolveReasoningConfig modelName modelConfig b =
     (let providerOpts = providerOptions_openai b;
          existingEffort =
            (case (case reasoning b of Some r \<Rightarrow> effort_opt r | None \<Rightarrow> None) of
               Some e \<Rightarrow> Some e
             | None \<Rightarrow> (case providerOpts of Some po \<Rightarrow> propValue (reasoningEffort po)
                        | None \<Rightarrow> None));
          existingSummary =
            (case (case reasoning b of Some r \<Rightarrow> summary_opt r | None \<Rightarrow> None) of
               Some e \<Rightarrow> Some e
             | None \<Rightarrow> (case providerOpts of Some po \<Rightarrow> propValue (reasoningSummary po)
                        | None \<Rightarrow> None));
          merged = modelConfig
            \<lparr>reasoningEffort :=
               (if orElse existingEffort [] \<noteq> [] then Value (orElse existingEffort [])
                else reasoningEffort modelConfig),
             reasoningSummary :=
               (if orElse existingSummary [] \<noteq> [] then Value (orElse existingSummary [])
                else reasoningSummary modelConfig)\<rparr>
      in getReasoningConfig (Some modelName) merged)"

definition resolveTextVerbosity :: "ConfigOptions \<Rightarrow> RequestBody \<Rightarrow> string" where
  "resolveTextVerbosity modelConfig b =
     (case (case text_cfg b of Some t \<Rightarrow> verbosity t | None \<Rightarrow> None) of
        Some v \<Rightarrow> v
      | None \<Rightarrow>
          (case (case providerOptions_openai b of Some po \<Rightarrow> propValue (textVerbosity po)
                 | None \<Rightarrow> None) of
             Some v \<Rightarrow> v
           | None \<Rightarrow> (case propValue (textVerbosity modelConfig) of
                         Some v \<Rightarrow> v | None \<Rightarrow> ''medium'')))"

text \<open>\<open>Array.from(new Set(xs))\<close>: the first occurrence of each element is kept.\<close>

definition uniqueFirst :: "string list \<Rightarrow> string list" where
  "uniqueFirst xs = rev (remdups (rev xs))"

definition resolveInclude :: "ConfigOptions \<Rightarrow> RequestBody \<Rightarrow> string list" where
  "resolveInclude modelConfig b =
     (let base =
            (case include_list b of
               Some i \<Rightarrow> i
             | None \<Rightarrow>
                 (case (case providerOptions_openai b of Some po \<Rightarrow> propValue (include_opt po)
                        | None \<Rightarrow> None) of
                    Some i \<Rightarrow> i
                  | None \<Rightarrow> (case propValue (include_opt modelConfig) of
                                Some i \<Rightarrow> i | None \<Rightarrow> [''reasoning.encrypted_content''])));
          incl = uniqueFirst (filter (\<lambda>x. x \<noteq> []) base)
      in if ''reasoning.encrypted_content'' \<notin> set incl
         then incl @ [''reasoning.encrypted_content''] else incl)"

definition filterInput :: "InputItem list \<Rightarrow> InputItem list" where
  "filterInput inp =
     map (\<lambda>item. if truthy (item_id item) then item\<lparr>item_id := None\<rparr> else item)
       (filter (\<lambda>item. item_type item \<noteq> ''item_reference'') inp)"

definition developerMessage :: "string \<Rightarrow> InputItem" where
  "developerMessage txt =
     \<lparr>item_id = None, item_type = ''message'', role = Some ''developer'',
      content = Some (JArr [JObj [(''type'', JStr ''input_text''), (''text'', JStr txt)]]),
      call_id = None, name = None, item_output = None, extras = []\<rparr>"

definition addCodexBridgeMessage :: "prompts \<Rightarrow> InputItem list \<Rightarrow> bool \<Rightarrow> InputItem list" where
  "addCodexBridgeMessage env inp hasTools =
     (if \<not> hasTools then inp else developerMessage (CODEX_OPENCODE_BRIDGE env) # inp)"

definition addToolRemapMessage :: "prompts \<Rightarrow> InputItem list \<Rightarrow> bool \<Rightarrow> InputItem list" where
  "addToolRemapMessage env inp hasTools =
     (if \<not> hasTools then inp else developerMessage (TOOL_REMAP_MESSAGE env) # inp)"

text \<open>
  The input block of \<open>transformRequestBody\<close>. Each assignment to \<open>body.input\<close> is an update
  of the body; when a step throws, the body keeps the assignments made before it.
\<close>

definition transformInput ::
  "platform \<Rightarrow> prompts \<Rightarrow> bool \<Rightarrow> RequestBody \<Rightarrow> error option \<times> RequestBody" where
  "transformInput pf env codexMode b =
     (case input b of
        None \<Rightarrow> (None, b)
      | Some inp \<Rightarrow>
          let b1 = b\<lparr>input := Some (filterInput inp)\<rparr>;
              hasTools = truthy (tools b);
              step =
                (if codexMode then
                   (case filterOpenCodeSystemPromptsWithCachedPrompt pf (filterInput inp)
                           (openCodeCodexPrompt env) of
                      Inl e \<Rightarrow> Inl e
                    | Inr filtered \<Rightarrow> Inr (addCodexBridgeMessage env filtered hasTools))
                 else Inr (addToolRemapMessage env (filterInput inp) hasTools))
          in case step of
               Inl e \<Rightarrow> (Some e, b1)
             | Inr inp2 \<Rightarrow>
                 (case normalizeOrphanedToolOutputs pf inp2 of
                    Inl e \<Rightarrow> (Some e, b1\<lparr>input := Some inp2\<rparr>)
                  | Inr inp3 \<Rightarrow> (None, b1\<lparr>input := Some inp3\<rparr>)))"

text \<open>
  \<open>transformRequestBody\<close>. The body is an object: the function gets the address \<open>a\<close> of
  the object in the store \<open>h\<close>, assigns to its fields and returns the address it was given.
  The result is the returned address, or the error thrown, and the store after the call.

  Two calls on a value that is not a string throw a \<open>TypeError\<close>: \<open>model.includes\<close> in
  \<open>normalizeModel\<close> when the body already holds an inherited member as its model (nothing
  has been assigned by then), and \<open>modelName?.toLowerCase()\<close> in \<open>getReasoningConfig\<close>
  when \<open>normalizeModel\<close> returned an inherited member (\<open>model\<close>, \<open>store\<close>, \<open>stream\<close>,
  \<open>instructions\<close> and \<open>input\<close> have been assigned by then). \<open>normalizeModel\<close> returns an
  inherited member only for a non-empty string, so \<open>originalModel || normalizedModel\<close> is
  a string in every case.
\<close>

type_synonym heap = "nat \<Rightarrow> RequestBody"

text \<open>The string held by \<open>body.model\<close>, \<open>None\<close> when the property is absent.\<close>

definition modelString :: "ModelValue option \<Rightarrow> string option" where
  "modelString v = (case v of Some (ModelName m) \<Rightarrow> Some m | _ \<Rightarrow> None)"

definition transformRequestBody ::
  "platform \<Rightarrow> prompts \<Rightarrow> heap \<Rightarrow> nat \<Rightarrow> string \<Rightarrow> UserConfig \<Rightarrow> bool \<Rightarrow> (error + nat) \<times> heap" where
  "transformRequestBody pf env h a codexInstructions userConfig codexMode =
     (let b = h a in
      case model b of
        Some (InheritedMember k) \<Rightarrow> (Inl TypeError, h)
      | _ \<Rightarrow>
          let originalModel = modelString (model b);
              normalizedModel = normalizeModel originalModel;
              lookupModel = (case normalizedModel of
                               ModelName n \<Rightarrow> orElse originalModel n
                             | InheritedMember k \<Rightarrow> orElse originalModel []);
              modelConfig = getModelConfig lookupModel userConfig;
              b0 = b\<lparr>model := Some normalizedModel, store := Some False, stream := Some True,
                     instructions := Some codexInstructions\<rparr>
          in case transformInput pf env codexMode b0 of
               (Some e, b1) \<Rightarrow> (Inl e, h(a := b1))
             | (None, b1) \<Rightarrow>
                 (case normalizedModel of
                    InheritedMember k \<Rightarrow> (Inl TypeError, h(a := b1))
                  | ModelName modelName \<Rightarrow>
                      let reasoningConfig = resolveReasoningConfig modelName modelConfig b1;
                          b2 = b1\<lparr>reasoning := Some \<lparr>effort_opt = Some (effort reasoningConfig),
                                                      summary_opt = Some (summary reasoningConfig)\<rparr>\<rparr>;
                          b3 = b2\<lparr>text_cfg :=
                                    Some \<lparr>verbosity = Some (resolveTextVerbosity modelConfig b2)\<rparr>\<rparr>;
                          b4 = b3\<lparr>include_list := Some (resolveInclude modelConfig b3)\<rparr>;
                          b5 = b4\<lparr>max_output_tokens := None, max_completion_tokens := None\<rparr>
                      in (Inr a, h(a := b5))))"

definition exampleBody :: RequestBody where
  "exampleBody =
     \<lparr>model = Some (ModelName ''gpt-5''), store = None, stream = None, instructions = None,
      input = Some [functionCallX, functionOutput ''Y''], tools = None, reasoning = None,
      text_cfg = None, include_list = None, providerOptions_openai = None,
      prompt_cache_key = None, max_output_tokens = Some 1024, max_completion_tokens = None,
      body_extras = []\<rparr>"

definition exampleHeap :: heap where
  "exampleHeap a =
     (if a = 0 then exampleBody
      else if a = 2 then exampleBody\<lparr>model := Some (ModelName ''constructor''), input := None\<rparr>
      else exampleBody\<lparr>input := None\<rparr>)"

definition examplePrompts :: prompts where
  "examplePrompts = \<lparr>CODEX_OPENCODE_BRIDGE = ''bridge'', TOOL_REMAP_MESSAGE = ''remap'',
                      openCodeCodexPrompt = None\<rparr>"

definition exampleConfig :: UserConfig where
  "exampleConfig = \<lparr>global_options = emptyOptions, model_options = Map.empty\<rparr>"

section \<open>rotation.ts: health scores\<close>

text \<open>Numbers are reals; \<open>now\<close> is the value of \<open>Date.now()\<close> during the call.\<close>

record HealthScoreConfig =
  initial :: real
  successReward :: real
  rateLimitPenalty :: real
  failurePenalty :: real
  recoveryRatePerHour :: real
  minUsable :: real
  maxScore :: real

definition DEFAULT_HEALTH_CONFIG :: HealthScoreConfig where
  "DEFAULT_HEALTH_CONFIG =
     \<lparr>initial = 70, successReward = 1, rateLimitPenalty = - 10, failurePenalty = - 20,
      recoveryRatePerHour = 2, minUsable = 50, maxScore = 100\<rparr>"

record HealthState =
  score :: real
  hs_lastUpdated :: real
  hs_consecutiveFailures :: nat

record HealthScoreTracker =
  scores :: "nat \<Rightarrow> HealthState option"
  hconfig :: HealthScoreConfig

definition newHealthScoreTracker :: HealthScoreTracker where
  "newHealthScoreTracker = \<lparr>scores = Map.empty, hconfig = DEFAULT_HEALTH_CONFIG\<rparr>"

definition getScore :: "HealthScoreTracker \<Rightarrow> nat \<Rightarrow> real \<Rightarrow> real" where
  "getScore t i now =
     (case scores t i of
        None \<Rightarrow> initial (hconfig t)
      | Some st \<Rightarrow>
          let hoursSince = (now - hs_lastUpdated st) / (1000 * 60 * 60);
              recovered = of_int \<lfloor>hoursSince * recoveryRatePerHour (hconfig t)\<rfloor>
          in min (maxScore (hconfig t)) (score st + recovered))"

definition health_recordSuccess :: "HealthScoreTracker \<Rightarrow> nat \<Rightarrow> real \<Rightarrow> HealthScoreTracker" where
  "health_recordSuccess t i now =
     (let current = getScore t i now in
      t\<lparr>scores := (scores t)(i \<mapsto>
           \<lparr>score = min (maxScore (hconfig t)) (current + successReward (hconfig t)),
            hs_lastUpdated = now, hs_consecutiveFailures = 0\<rparr>)\<rparr>)"

definition health_recordRateLimit :: "HealthScoreTracker \<Rightarrow> nat \<Rightarrow> real \<Rightarrow> HealthScoreTracker" where
  "health_recordRateLimit t i now =
     (let st = scores t i; current = getScore t i now in
      t\<lparr>scores := (scores t)(i \<mapsto>
           \<lparr>score = max 0 (current + rateLimitPenalty (hconfig t)),
            hs_lastUpdated = now,
            hs_consecutiveFailures =
              (case st of Some x \<Rightarrow> hs_consecutiveFailures x | None \<Rightarrow> 0) + 1\<rparr>)\<rparr>)"

definition health_recordFailure :: "HealthScoreTracker \<Rightarrow> nat \<Rightarrow> real \<Rightarrow> HealthScoreTracker" where
  "health_recordFailure t i now =
     (let st = scores t i; current = getScore t i now in
      t\<lparr>scores := (scores t)(i \<mapsto>
           \<lparr>score = max 0 (current + failurePenalty (hconfig t)),
            hs_lastUpdated = now,
            hs_consecutiveFailures =
              (case st of Some x \<Rightarrow> hs_consecutiveFailures x | None \<Rightarrow> 0) + 1\<rparr>)\<rparr>)"

definition health_reset :: "HealthScoreTracker \<Rightarrow> nat \<Rightarrow> HealthScoreTracker" where
  "health_reset t i = t\<lparr>scores := (scores t)(i := None)\<rparr>"

section \<open>rotation.ts: token buckets\<close>

record TokenBucketConfig =
  maxTokens :: real
  regenerationRatePerMinute :: real
  initialTokens :: real

definition DEFAULT_TOKEN_BUCKET_CONFIG :: TokenBucketConfig where
  "DEFAULT_TOKEN_BUCKET_CONFIG =
     \<lparr>maxTokens = 50, regenerationRatePerMinute = 6, initialTokens = 50\<rparr>"

record TokenBucketState =
  tokens :: real
  tb_lastUpdated :: real

record TokenBucketTracker =
  buckets :: "nat \<Rightarrow> TokenBucketState option"
  tconfig :: TokenBucketConfig

definition newTokenBucketTracker :: TokenBucketTracker where
  "newTokenBucketTracker = \<lparr>buckets = Map.empty, tconfig = DEFAULT_TOKEN_BUCKET_CONFIG\<rparr>"

definition getTokens :: "TokenBucketTracker \<Rightarrow> nat \<Rightarrow> real \<Rightarrow> real" where
  "getTokens t i now =
     (case buckets t i of
        None \<Rightarrow> initialTokens (tconfig t)
      | Some st \<Rightarrow>
          let minutesSince = (now - tb_lastUpdated st) / (1000 * 60);
              recovered = minutesSince * regenerationRatePerMinute (tconfig t)
          in min (maxTokens (tconfig t)) (tokens st + recovered))"

definition hasTokens :: "TokenBucketTracker \<Rightarrow> nat \<Rightarrow> real \<Rightarrow> real \<Rightarrow> bool" where
  "hasTokens t i cost now = (getTokens t i now \<ge> cost)"

definition consume :: "TokenBucketTracker \<Rightarrow> nat \<Rightarrow> real \<Rightarrow> real \<Rightarrow> bool \<times> TokenBucketTracker" where
  "consume t i cost now =
     (let current = getTokens t i now in
      if current < cost then (False, t)
      else (True, t\<lparr>buckets := (buckets t)(i \<mapsto> \<lparr>tokens = current - cost, tb_lastUpdated = now\<rparr>)\<rparr>))"

definition refund :: "TokenBucketTracker \<Rightarrow> nat \<Rightarrow> real \<Rightarrow> real \<Rightarrow> TokenBucketTracker" where
  "refund t i amount now =
     (let current = getTokens t i now in
      t\<lparr>buckets := (buckets t)(i \<mapsto>
           \<lparr>tokens = min (maxTokens (tconfig t)) (current + amount), tb_lastUpdated = now\<rparr>)\<rparr>)"

definition getMaxTokens :: "TokenBucketTracker \<Rightarrow> real" where
  "getMaxTokens t = maxTokens (tconfig t)"

section \<open>rotation.ts: selection\<close>

record AccountMetrics =
  m_index :: nat
  m_lastUsed :: real
  healthScore :: real
  isRateLimited :: bool
  m_enabled :: bool

definition STICKINESS_BONUS :: real where "STICKINESS_BONUS = 150"
definition SWITCH_THRESHOLD :: real where "SWITCH_THRESHOLD = 100"

text \<open>The candidate filter of \<open>selectHybridAccount\<close>.\<close>

definition isCandidate :: "TokenBucketTracker \<Rightarrow> real \<Rightarrow> real \<Rightarrow> AccountMetrics \<Rightarrow> bool" where
  "isCandidate tokenTracker minHealthScore now acc =
     (\<not> isRateLimited acc \<and> m_enabled acc \<and> healthScore acc \<ge> minHealthScore
      \<and> hasTokens tokenTracker (m_index acc) 1 now)"

record Scored =
  s_index :: nat
  baseScore :: real
  s_score :: real
  isCurrent :: bool

text \<open>The score of one candidate.\<close>

definition scoreAccount ::
  "TokenBucketTracker \<Rightarrow> nat option \<Rightarrow> real \<Rightarrow> AccountMetrics \<Rightarrow> Scored" where
  "scoreAccount tokenTracker currentIndex now acc =
     (let tok = getTokens tokenTracker (m_index acc) now;
          maxTok = getMaxTokens tokenTracker;
          healthComponent = healthScore acc * 2;
          tokenComponent = (tok / maxTok) * 100 * 5;
          secondsSinceUsed = (now - m_lastUsed acc) / 1000;
          freshnessComponent = min secondsSinceUsed 3600 * 0.1;
          base = max 0 (healthComponent + tokenComponent + freshnessComponent);
          stickinessBonus = (if Some (m_index acc) = currentIndex then STICKINESS_BONUS else 0)
      in \<lparr>s_index = m_index acc, baseScore = base, s_score = base + stickinessBonus,
          isCurrent = (Some (m_index acc) = currentIndex)\<rparr>)"

text \<open>\<open>selectHybridAccount\<close>. \<open>Array.prototype.sort\<close> is stable; with the comparator
  \<open>b.score - a.score\<close> it is the stable sort by descending score.\<close>

definition selectHybridAccount ::
  "AccountMetrics list \<Rightarrow> TokenBucketTracker \<Rightarrow> nat option \<Rightarrow> real \<Rightarrow> real \<Rightarrow> nat option" where
  "selectHybridAccount accs tokenTracker currentIndex minHealthScore now =
     (let candidates = filter (isCandidate tokenTracker minHealthScore now) accs in
      if candidates = [] then None
      else
        let scored = sort_key (\<lambda>s. - s_score s)
                       (map (scoreAccount tokenTracker currentIndex now) candidates)
        in case scored of
             [] \<Rightarrow> None
           | best # _ \<Rightarrow>
               (case find isCurrent scored of
                  Some currentCandidate \<Rightarrow>
                    if \<not> isCurrent best
                       \<and> baseScore best - baseScore currentCandidate < SWITCH_THRESHOLD
                    then Some (s_index currentCandidate)
                    else Some (s_index best)
                | None \<Rightarrow> Some (s_index best)))"

text \<open>\<open>xs.findIndex(p)\<close>, \<open>None\<close> for \<open>-1\<close>.\<close>

fun findIndex :: "('a \<Rightarrow> bool) \<Rightarrow> 'a list \<Rightarrow> nat option" where
  "findIndex p [] = None"
| "findIndex p (x # xs) = (if p x then Some 0 else map_option Suc (findIndex p xs))"



text \<open>The candidates of a snapshot, the base score of an account, and the best base
  score among the candidates that are not the active account \<open>c\<close>.\<close>

definition candidatesOf ::
  "AccountMetrics list \<Rightarrow> TokenBucketTracker \<Rightarrow> real \<Rightarrow> real \<Rightarrow> AccountMetrics list" where
  "candidatesOf accs tokenTracker minHealthScore now =
     filter (isCandidate tokenTracker minHealthScore now) accs"

definition baseOf :: "TokenBucketTracker \<Rightarrow> real \<Rightarrow> AccountMetrics \<Rightarrow> real" where
  "baseOf tokenTracker now acc = baseScore (scoreAccount tokenTracker None now acc)"

definition bestNonActiveBase ::
  "AccountMetrics list \<Rightarrow> TokenBucketTracker \<Rightarrow> nat \<Rightarrow> real \<Rightarrow> real \<Rightarrow> real" where
  "bestNonActiveBase accs tokenTracker c minHealthScore now =
     Max (baseOf tokenTracker now `
            {x \<in> set (candidatesOf accs tokenTracker minHealthScore now). m_index x \<noteq> c})"

section \<open>types.ts: accounts\<close>

record StoredAccount =
  email :: "string option"
  refreshToken :: string
  accessToken :: "string option"
  accessTokenExpires :: "real option"
  accountId :: "string option"
  addedAt :: real
  lastUsed :: real
  enabled :: bool
  rateLimitResetTime :: "real option"
  rateLimitReason :: "RateLimitReason option"
  consecutiveFailures :: nat

record ManagedAccount = StoredAccount +
  index :: nat

record AccountStorage =
  version :: nat
  st_accounts :: "StoredAccount list"
  st_activeIndex :: nat

record TokenSuccess =
  access :: string
  refresh :: string
  expires :: real

text \<open>The claims of an access token that \<open>addAccount\<close> reads: the account id under
  \<open>https://api.openai.com/auth\<close>, the email under \<open>https://api.openai.com/profile\<close> and the
  top-level email.\<close>

record JWTPayload =
  auth_chatgpt_account_id :: "string option"
  profile_email :: "string option"
  jwt_email :: "string option"

section \<open>storage.ts\<close>

text \<open>
  The storage file as the code reads it: absent, not parseable, or JSON. Of the JSON the
  code looks at \<open>accounts\<close> (\<open>None\<close> when it is not an array), each entry of which is an
  object with a string \<open>refreshToken\<close>, read as a \<open>StoredAccount\<close>, or anything else
  (\<open>Invalid\<close>), and at \<open>activeIndex\<close> (\<open>None\<close> when it is not a finite number).
  \<open>saveAccounts\<close> is a write that succeeds; reading back what \<open>JSON.stringify\<close> wrote gives
  the object that was written.
\<close>

datatype FileEntry = Invalid | Entry StoredAccount

datatype StorageFile = Absent | Unparsable | Content "FileEntry list option" "int option"

definition createEmptyStorage :: AccountStorage where
  "createEmptyStorage = \<lparr>version = 1, st_accounts = [], st_activeIndex = 0\<rparr>"

text \<open>\<open>deduplicateAccounts\<close>: the \<open>Map\<close> is a list of pairs in insertion order;
  \<open>dedupStep\<close> is the body of the loop.\<close>

definition dedupStep ::
  "StoredAccount \<Rightarrow> (string \<times> StoredAccount) list \<Rightarrow> (string \<times> StoredAccount) list" where
  "dedupStep acc tokenMap =
     (case map_of tokenMap (refreshToken acc) of
        None \<Rightarrow> AList.update (refreshToken acc) acc tokenMap
      | Some existing \<Rightarrow>
          if lastUsed acc > lastUsed existing
          then AList.update (refreshToken acc) acc tokenMap else tokenMap)"

definition deduplicateAccounts :: "StoredAccount list \<Rightarrow> StoredAccount list" where
  "deduplicateAccounts accs = map snd (fold dedupStep accs [])"

text \<open>An entry of the file that passes the validity filter of \<open>loadAccounts\<close>.\<close>

definition validEntry :: "FileEntry \<Rightarrow> StoredAccount option" where
  "validEntry e =
     (case e of Invalid \<Rightarrow> None
      | Entry a \<Rightarrow> if refreshToken a \<noteq> [] then Some a else None)"

definition loadAccounts :: "StorageFile \<Rightarrow> AccountStorage" where
  "loadAccounts file =
     (case file of
        Absent \<Rightarrow> createEmptyStorage
      | Unparsable \<Rightarrow> createEmptyStorage
      | Content None ai \<Rightarrow> createEmptyStorage
      | Content (Some entries) ai \<Rightarrow>
          let validAccounts = List.map_filter validEntry entries;
              deduped = deduplicateAccounts validAccounts;
              activeIndex0 = (case ai of Some i \<Rightarrow> i | None \<Rightarrow> 0);
              activeIndex1 = (if deduped \<noteq> []
                              then min (max activeIndex0 0) (int (length deduped) - 1) else 0)
          in \<lparr>version = 1, st_accounts = deduped, st_activeIndex = nat activeIndex1\<rparr>)"

definition saveAccounts :: "AccountStorage \<Rightarrow> StorageFile" where
  "saveAccounts storage =
     Content (Some (map Entry (st_accounts storage))) (Some (int (st_activeIndex storage)))"

section \<open>manager.ts\<close>

datatype AccountSelectionStrategy = sticky | round_robin | hybrid

record AccountManager =
  accounts :: "ManagedAccount list"
  activeIndex :: "nat option"
  strategy :: AccountSelectionStrategy
  healthTracker :: HealthScoreTracker
  tokenTracker :: TokenBucketTracker
  loaded :: bool

definition newAccountManager :: "AccountSelectionStrategy \<Rightarrow> AccountManager" where
  "newAccountManager s =
     \<lparr>accounts = [], activeIndex = None, strategy = s, healthTracker = newHealthScoreTracker,
      tokenTracker = newTokenBucketTracker, loaded = False\<rparr>"

definition BACKOFF_RATE_LIMIT_MS :: real where "BACKOFF_RATE_LIMIT_MS = 30000"
definition BACKOFF_QUOTA_EXHAUSTED_MS :: "real list" where
  "BACKOFF_QUOTA_EXHAUSTED_MS = [60000, 300000, 1800000]"
definition BACKOFF_SERVER_ERROR_MS :: real where "BACKOFF_SERVER_ERROR_MS = 20000"
definition BACKOFF_UNKNOWN_MS :: real where "BACKOFF_UNKNOWN_MS = 60000"

definition load :: "AccountManager \<Rightarrow> StorageFile \<Rightarrow> AccountManager" where
  "load m file =
     (if loaded m then m
      else
        let storage = loadAccounts file in
        m\<lparr>accounts := map (\<lambda>(i, acc). StoredAccount.extend acc \<lparr>index = i\<rparr>)
                         (enumerate 0 (st_accounts storage)),
          activeIndex := (if st_accounts storage \<noteq> [] then Some (st_activeIndex storage) else None),
          loaded := True\<rparr>)"

definition saveToDisk :: "AccountManager \<Rightarrow> StorageFile" where
  "saveToDisk m =
     saveAccounts \<lparr>version = 1, st_accounts = map StoredAccount.truncate (accounts m),
                   st_activeIndex = (case activeIndex m of Some i \<Rightarrow> i | None \<Rightarrow> 0)\<rparr>"

text \<open>The duplicate test of \<open>addAccount\<close>.\<close>

definition matchesTokens :: "string \<Rightarrow> string option \<Rightarrow> ManagedAccount \<Rightarrow> bool" where
  "matchesTokens refreshTok accId a =
     (refreshToken a = refreshTok
      \<or> (case accId of None \<Rightarrow> False | Some i \<Rightarrow> i \<noteq> [] \<and> accountId a = Some i))"

text \<open>\<open>decodeJWT\<close> is a parameter; the account id and the email that \<open>addAccount\<close>
  takes from the decoded access token.\<close>

definition tokenAccountId :: "(string \<Rightarrow> JWTPayload option) \<Rightarrow> TokenSuccess \<Rightarrow> string option" where
  "tokenAccountId decodeJWT toks =
     (case decodeJWT (access toks) of None \<Rightarrow> None | Some d \<Rightarrow> auth_chatgpt_account_id d)"

definition tokenEmail :: "(string \<Rightarrow> JWTPayload option) \<Rightarrow> TokenSuccess \<Rightarrow> string option" where
  "tokenEmail decodeJWT toks =
     (case decodeJWT (access toks) of
        None \<Rightarrow> None
      | Some d \<Rightarrow> (case profile_email d of Some e \<Rightarrow> Some e | None \<Rightarrow> jwt_email d))"

text \<open>\<open>addAccount\<close>. The result is the returned index, the manager and the storage file
  after the synchronous save.\<close>

definition addAccount ::
  "(string \<Rightarrow> JWTPayload option) \<Rightarrow> AccountManager \<Rightarrow> StorageFile \<Rightarrow> TokenSuccess \<Rightarrow> real
     \<Rightarrow> nat \<times> AccountManager \<times> StorageFile" where
  "addAccount decodeJWT m0 file toks now =
     (let m = load m0 file;
          accId = tokenAccountId decodeJWT toks;
          mail = tokenEmail decodeJWT toks
      in case findIndex (matchesTokens (refresh toks) accId) (accounts m) of
           Some existingIdx \<Rightarrow>
             let existing = accounts m ! existingIdx;
                 existing' = existing
                   \<lparr>email := (if orElse mail [] \<noteq> [] then mail else email existing),
                    refreshToken := refresh toks,
                    accessToken := Some (access toks),
                    accessTokenExpires := Some (expires toks),
                    accountId := accId,
                    enabled := True,
                    rateLimitResetTime := None,
                    rateLimitReason := None,
                    consecutiveFailures := 0\<rparr>;
                 m' = m\<lparr>accounts := (accounts m)[existingIdx := existing'],
                        healthTracker := health_reset (healthTracker m) existingIdx\<rparr>
             in (existingIdx, m', saveToDisk m')
         | None \<Rightarrow>
             let newAccount =
                   \<lparr>email = mail, refreshToken = refresh toks, accessToken = Some (access toks),
                    accessTokenExpires = Some (expires toks), accountId = accId,
                    addedAt = now, lastUsed = 0, enabled = True,
                    rateLimitResetTime = None, rateLimitReason = None,
                    consecutiveFailures = 0, index = length (accounts m)\<rparr>;
                 m1 = m\<lparr>accounts := accounts m @ [newAccount]\<rparr>;
                 m' = (if length (accounts m1) = 1 then m1\<lparr>activeIndex := Some 0\<rparr> else m1)
             in (index newAccount, m', saveToDisk m'))"


text \<open>\<open>(curr.rateLimitResetTime ?? Infinity) < (prev.rateLimitResetTime ?? Infinity)\<close>.\<close>

definition resetsBefore :: "ManagedAccount \<Rightarrow> ManagedAccount \<Rightarrow> bool" where
  "resetsBefore cur prev =
     (case rateLimitResetTime cur of
        None \<Rightarrow> False
      | Some c \<Rightarrow> (case rateLimitResetTime prev of None \<Rightarrow> True | Some p \<Rightarrow> c < p))"




definition recordSuccess :: "AccountManager \<Rightarrow> nat \<Rightarrow> real \<Rightarrow> AccountManager" where
  "recordSuccess m i now =
     (if i \<ge> length (accounts m) then m
      else m\<lparr>accounts := (accounts m)[i := (accounts m ! i)\<lparr>lastUsed := now, consecutiveFailures := 0\<rparr>],
             healthTracker := health_recordSuccess (healthTracker m) i now,
             tokenTracker := snd (consume (tokenTracker m) i 1 now)\<rparr>)"

definition calculateBackoff :: "RateLimitReason \<Rightarrow> nat \<Rightarrow> real" where
  "calculateBackoff reason failures =
     (case reason of
        USAGE_LIMIT_REACHED \<Rightarrow>
          (let idx = min failures (length BACKOFF_QUOTA_EXHAUSTED_MS - 1) in
           if idx < length BACKOFF_QUOTA_EXHAUSTED_MS then BACKOFF_QUOTA_EXHAUSTED_MS ! idx
           else BACKOFF_UNKNOWN_MS)
      | RATE_LIMIT_EXCEEDED \<Rightarrow> BACKOFF_RATE_LIMIT_MS
      | SERVER_ERROR \<Rightarrow> BACKOFF_SERVER_ERROR_MS
      | UNKNOWN \<Rightarrow> BACKOFF_UNKNOWN_MS)"

definition markRateLimited :: "AccountManager \<Rightarrow> nat \<Rightarrow> RateLimitReason \<Rightarrow> real \<Rightarrow> AccountManager" where
  "markRateLimited m i reason now =
     (if i \<ge> length (accounts m) then m
      else
        let account = accounts m ! i;
            backoffMs = calculateBackoff reason (consecutiveFailures account)
        in m\<lparr>accounts := (accounts m)[i := account
                 \<lparr>rateLimitResetTime := Some (now + backoffMs),
                  rateLimitReason := Some reason,
                  consecutiveFailures := consecutiveFailures account + 1\<rparr>],
              healthTracker := health_recordRateLimit (healthTracker m) i now\<rparr>)"

definition recordFailure :: "AccountManager \<Rightarrow> nat \<Rightarrow> real \<Rightarrow> AccountManager" where
  "recordFailure m i now =
     (if i \<ge> length (accounts m) then m
      else
        let account = accounts m ! i;
            failures = consecutiveFailures account + 1
        in m\<lparr>accounts := (accounts m)[i := account
                 \<lparr>enabled := (if failures \<ge> 5 then False else enabled account),
                  consecutiveFailures := failures\<rparr>],
              healthTracker := health_recordFailure (healthTracker m) i now\<rparr>)"

section \<open>Sequences of Manager operations\<close>

text \<open>The operations of C5, each with the time of its call. \<open>addAccount\<close> saves at once;
  the saves that the other operations schedule are not part of the state.\<close>

datatype Op =
    AddAccount TokenSuccess real
  | RecordSuccess nat real
  | MarkRateLimited nat RateLimitReason real
  | RecordFailure nat real

definition applyOp ::
  "(string \<Rightarrow> JWTPayload option) \<Rightarrow> AccountManager \<times> StorageFile \<Rightarrow> Op \<Rightarrow> AccountManager \<times> StorageFile" where
  "applyOp decodeJWT st op =
     (case op of
        AddAccount toks now \<Rightarrow> snd (addAccount decodeJWT (fst st) (snd st) toks now)
      | RecordSuccess i now \<Rightarrow> (recordSuccess (fst st) i now, snd st)
      | MarkRateLimited i reason now \<Rightarrow> (markRateLimited (fst st) i reason now, snd st)
      | RecordFailure i now \<Rightarrow> (recordFailure (fst st) i now, snd st))"

definition runOps ::
  "(string \<Rightarrow> JWTPayload option) \<Rightarrow> AccountManager \<times> StorageFile \<Rightarrow> Op list \<Rightarrow> AccountManager \<times> StorageFile" where
  "runOps decodeJWT st ops = foldl (applyOp decodeJWT) st ops"

definition opOk :: "(string \<Rightarrow> JWTPayload option) \<Rightarrow> AccountManager \<times> StorageFile \<Rightarrow> Op \<Rightarrow> bool" where
  "opOk decodeJWT st op =
     (case op of
        AddAccount toks now \<Rightarrow>
          refresh toks \<noteq> [] \<and>
          (let accs = accounts (load (fst st) (snd st));
               found = findIndex (matchesTokens (refresh toks) (tokenAccountId decodeJWT toks)) accs
           in \<forall>j<length accs. refreshToken (accs ! j) = refresh toks \<longrightarrow> found = Some j)
      | _ \<Rightarrow> True)"

fun opsOk :: "(string \<Rightarrow> JWTPayload option) \<Rightarrow> AccountManager \<times> StorageFile \<Rightarrow> Op list \<Rightarrow> bool" where
  "opsOk decodeJWT st [] = True"
| "opsOk decodeJWT st (op # ops) = (opOk decodeJWT st op \<and> opsOk decodeJWT (applyOp decodeJWT st op) ops)"

definition tokensOk :: "'a StoredAccount_scheme list \<Rightarrow> bool" where
  "tokensOk accs = (distinct (map refreshToken accs) \<and> [] \<notin> set (map refreshToken accs))"

definition managerInv :: "AccountManager \<Rightarrow> bool" where
  "managerInv m = (tokensOk (accounts m)
            \<and> (\<forall>i<length (accounts m). index (accounts m ! i) = i)
            \<and> (case activeIndex m of None \<Rightarrow> accounts m = [] | Some a \<Rightarrow> a < length (accounts m)))"

text \<open>The pairs of the \<open>Map\<close> in \<open>deduplicateAccounts\<close>: distinct keys, each the refresh token
  of its account, none empty.\<close>

definition pairsOk :: "(string \<times> StoredAccount) list \<Rightarrow> bool" where
  "pairsOk al = (distinct (map fst al)
                 \<and> (\<forall>p\<in>set al. fst p = refreshToken (snd p) \<and> refreshToken (snd p) \<noteq> []))"

section \<open>Example accounts\<close>

definition exampleDecode :: "string \<Rightarrow> JWTPayload option" where
  "exampleDecode = map_of
     [(''access-A'', \<lparr>auth_chatgpt_account_id = Some ''acct-A'',
                      profile_email = Some ''a@example.com'', jwt_email = None\<rparr>),
      (''access-A2'', \<lparr>auth_chatgpt_account_id = Some ''acct-A'',
                       profile_email = Some ''a@example.com'', jwt_email = None\<rparr>),
      (''access-B'', \<lparr>auth_chatgpt_account_id = Some ''acct-B'',
                      profile_email = None, jwt_email = Some ''b@example.com''\<rparr>)]"

definition tokensA :: TokenSuccess where
  "tokensA = \<lparr>access = ''access-A'', refresh = ''refresh-A'', expires = 5000000\<rparr>"
definition tokensA2 :: TokenSuccess where
  "tokensA2 = \<lparr>access = ''access-A2'', refresh = ''refresh-A2'', expires = 6000000\<rparr>"
definition tokensB :: TokenSuccess where
  "tokensB = \<lparr>access = ''access-B'', refresh = ''refresh-B'', expires = 5000000\<rparr>"
definition tokensEmpty :: TokenSuccess where
  "tokensEmpty = \<lparr>access = ''access-B'', refresh = [], expires = 5000000\<rparr>"

definition tokensCross :: TokenSuccess where
  "tokensCross = \<lparr>access = ''access-A2'', refresh = ''refresh-B'', expires = 6000000\<rparr>"

definition exampleOps :: "Op list" where
  "exampleOps = [AddAccount tokensA 1000, AddAccount tokensB 2000, RecordSuccess 0 3000,
                 MarkRateLimited 1 USAGE_LIMIT_REACHED 4000, RecordFailure 0 5000,
                 AddAccount tokensA2 6000]"

definition metricsA0 :: AccountMetrics where
  "metricsA0 = \<lparr>m_index = 0, m_lastUsed = 1000000, healthScore = 50, isRateLimited = False,
                 m_enabled = True\<rparr>"

definition metricsA1 :: AccountMetrics where
  "metricsA1 = \<lparr>m_index = 1, m_lastUsed = 1000000, healthScore = 100, isRateLimited = False,
                 m_enabled = True\<rparr>"

definition drainedTracker :: TokenBucketTracker where
  "drainedTracker = newTokenBucketTracker
     \<lparr>buckets := [0 \<mapsto> \<lparr>tokens = 10, tb_lastUpdated = 1000000\<rparr>]\<rparr>"

definition limitedManager :: AccountManager where
  "limitedManager = fst (runOps exampleDecode (newAccountManager hybrid, Absent)
     [AddAccount tokensA 1000, AddAccount tokensB 2000,
      MarkRateLimited 0 RATE_LIMIT_EXCEEDED 3000, MarkRateLimited 1 SERVER_ERROR 3000])"

section \<open>Facts about the string functions\<close>

lemma str_includes_prefix: "prefix p s \<Longrightarrow> str_includes s p"
  by (cases s) auto

lemma str_replace_absent: "\<not> str_includes s p \<Longrightarrow> str_replace s p r = s"
  by (induction s) auto

lemma str_replace_first:
  assumes "p \<noteq> []" "\<not> str_includes (pre @ butlast p) p"
  shows "str_replace (pre @ p @ post) p r = pre @ r @ post"
  using assms
proof (induction pre)
  case Nil
  then show ?case by (cases p) auto
next
  case (Cons a pre)
  have np: "\<not> prefix p (a # pre @ butlast p)" and ni: "\<not> str_includes (pre @ butlast p) p"
    using Cons.prems(2) by auto
  have "\<not> prefix p (a # pre @ p @ post)"
  proof
    assume h: "prefix p (a # pre @ p @ post)"
    have e: "a # pre @ p @ post = (a # pre @ butlast p) @ (last p # post)"
      using Cons.prems(1) by simp
    have "prefix (a # pre @ butlast p) (a # pre @ p @ post)"
      unfolding e by (rule prefixI) simp
    moreover have "length p \<le> length (a # pre @ butlast p)"
      using Cons.prems(1) by (cases p) auto
    ultimately have "prefix p (a # pre @ butlast p)"
      using h prefix_length_prefix by blast
    with np show False by simp
  qed
  then show ?case using Cons.IH[OF Cons.prems(1) ni] by simp
qed


section \<open>C9: the URL rewrite\<close>

text \<open>
  C9 (as stated): the rewrite replaces the trailing path segment \<open>/responses\<close> and does not
  touch an occurrence of \<open>/responses\<close> that is not the trailing segment. This fails:
  \<open>String.prototype.replace\<close> with a string pattern rewrites the leftmost occurrence. On
  the URL below the first, non-trailing occurrence is rewritten and the trailing one is kept.
\<close>

theorem rewriteUrlForCodex_trailing_counterexample:
  "rewriteUrlForCodex ''https://chatgpt.com/backend-api/responses/resp_1/responses''
     = ''https://chatgpt.com/backend-api/codex/responses/resp_1/responses''
   \<and> rewriteUrlForCodex ''https://chatgpt.com/backend-api/responses/resp_1/responses''
     \<noteq> ''https://chatgpt.com/backend-api/responses/resp_1/codex/responses''"
  by code_simp

text \<open>
  C9 (amended): the rewrite replaces the leftmost occurrence of the substring
  \<open>/responses\<close> by \<open>/codex/responses\<close> and leaves the text before and after it unchanged;
  a URL in which \<open>/responses\<close> does not occur is returned unchanged.
\<close>

theorem rewriteUrlForCodex_leftmost:
  "(\<not> str_includes url ''/responses'' \<longrightarrow> rewriteUrlForCodex url = url) \<and>
   (url = pre @ ''/responses'' @ post \<and> \<not> str_includes (pre @ ''/response'') ''/responses''
      \<longrightarrow> rewriteUrlForCodex url = pre @ ''/codex/responses'' @ post)"
proof -
  have b: "butlast ''/responses'' = ''/response''" by simp
  have "\<not> str_includes (pre @ ''/response'') ''/responses''
        \<Longrightarrow> str_replace (pre @ ''/responses'' @ post) ''/responses'' ''/codex/responses''
            = pre @ ''/codex/responses'' @ post"
    using str_replace_first[of "''/responses''" pre post "''/codex/responses''"]
    unfolding b by simp
  then show ?thesis
    unfolding rewriteUrlForCodex_def URL_PATHS_RESPONSES_def URL_PATHS_CODEX_RESPONSES_def
    using str_replace_absent[of url "''/responses''" "''/codex/responses''"] by blast
qed

theorem rewriteUrlForCodex_leftmost_witness:
  "\<not> str_includes ''https://chatgpt.com/backend-api/models'' ''/responses''
   \<and> rewriteUrlForCodex ''https://chatgpt.com/backend-api/models''
       = ''https://chatgpt.com/backend-api/models''
   \<and> \<not> str_includes (''https://chatgpt.com/backend-api'' @ ''/response'') ''/responses''
   \<and> rewriteUrlForCodex (''https://chatgpt.com/backend-api'' @ ''/responses'' @ ''?a=/responses'')
       = ''https://chatgpt.com/backend-api'' @ ''/codex/responses'' @ ''?a=/responses''"
proof -
  have h1: "\<not> str_includes ''https://chatgpt.com/backend-api/models'' ''/responses''"
    by code_simp
  have h2: "\<not> str_includes (''https://chatgpt.com/backend-api'' @ ''/response'') ''/responses''"
    by code_simp
  show ?thesis
    using h1 h2
      rewriteUrlForCodex_leftmost[of "''https://chatgpt.com/backend-api/models''" "[]" "[]"]
      rewriteUrlForCodex_leftmost[of
        "''https://chatgpt.com/backend-api'' @ ''/responses'' @ ''?a=/responses''"
        "''https://chatgpt.com/backend-api''" "''?a=/responses''"]
    by blast
qed

section \<open>C7: idempotence of model normalisation\<close>

text \<open>
  C7: \<open>normalizeModel (normalizeModel m) = normalizeModel m\<close> for every model string. The
  code breaks this: an identifier that is not in \<open>MODEL_MAP\<close> and contains
  \<open>gpt-5-codex-mini\<close> (or \<open>codex-mini-latest\<close>) is sent by the substring ladder to the
  legacy name \<open>codex-mini-latest\<close>, which the table itself sends to \<open>gpt-5.1-codex-mini\<close>.
  So \<open>normalizeModel\<close> of \<open>openai/gpt-5-codex-mini-low\<close> is the name \<open>codex-mini-latest\<close>,
  and \<open>normalizeModel\<close> of that name is \<open>gpt-5.1-codex-mini\<close>, another name.
\<close>

theorem normalizeModel_not_idempotent:
  "normalizeModel (Some ''openai/gpt-5-codex-mini-low'') = ModelName ''codex-mini-latest''
   \<and> normalizeModel (Some ''codex-mini-latest'') = ModelName ''gpt-5.1-codex-mini''
   \<and> (case normalizeModel (Some ''openai/gpt-5-codex-mini-low'') of
         ModelName once \<Rightarrow> normalizeModel (Some once)
                            \<noteq> normalizeModel (Some ''openai/gpt-5-codex-mini-low'')
       | InheritedMember k \<Rightarrow> False)"
proof -
  have a: "normalizeModel (Some ''openai/gpt-5-codex-mini-low'') = ModelName ''codex-mini-latest''"
    by code_simp
  have b: "normalizeModel (Some ''codex-mini-latest'') = ModelName ''gpt-5.1-codex-mini''"
    by code_simp
  show ?thesis using a b by simp
qed


section \<open>C2: the 404 remap\<close>

lemma newResponse_remap:
  "newResponse (body r) None HTTP_STATUS_TOO_MANY_REQUESTS ''Too Many Requests'' (headers r)
     = Inr (r\<lparr>status := HTTP_STATUS_TOO_MANY_REQUESTS, statusText := ''Too Many Requests''\<rparr>)"
  by (simp add: newResponse_def HTTP_STATUS_TOO_MANY_REQUESTS_def nullBodyStatus_def)












section \<open>C8: the SSE to JSON converter\<close>

lemma parseSseLines_find:
  "parseSseLines pf lines =
     (case find (isCompletionLine pf) lines of None \<Rightarrow> Some JNull | Some l \<Rightarrow> lineResponse pf l)"
proof (induction lines)
  case Nil
  then show ?case by simp
next
  case (Cons line rest)
  show ?case
  proof (cases "JSON_parse pf (drop 6 line)")
    case None
    then show ?thesis using Cons by (simp add: isCompletionLine_def)
  next
    case (Some d)
    then show ?thesis using Cons
      by (cases d) (auto simp: isCompletionLine_def lineResponse_def)
  qed
qed

lemma find_first_after:
  "(\<forall>x\<in>set pre. \<not> P x) \<Longrightarrow> P l \<Longrightarrow> find P (pre @ l # post) = Some l"
  by (induction pre) auto

lemma find_nowhere: "(\<forall>x\<in>set xs. \<not> P x) \<Longrightarrow> find P xs = None"
  by (induction xs) auto

lemma headers_has_set: "headers_has (headers_set h k v) k"
  by (simp add: headers_has_def headers_set_def update_conv')

text \<open>
  C8 (as stated): when the last event of the stream is \<open>response.completed\<close> with response
  \<open>R\<close>, the converter emits \<open>R\<close>. This fails: the loop returns at the first event of type
  \<open>response.done\<close> or \<open>response.completed\<close>. In the first stream below the last event is
  \<open>response.completed\<close> with \<open>{"id":"b"}\<close>, and the emitted body is \<open>{"id":"a"}\<close>.
  It also fails when \<open>R\<close> is falsy: the second stream has one event, \<open>response.completed\<close>
  with the response \<open>null\<close>, and the emitted body is the raw text of the stream, not
  \<open>JSON.stringify(null)\<close>.
\<close>

theorem convertSseToJson_last_event_counterexample:
  "isCompletionLine examplePlatform line_completed_b
   \<and> lineResponse examplePlatform line_completed_b = Some (JObj [(''id'', JStr ''b'')])
   \<and> str_split (CHR 0x0A) (line_done_a @ [CHR 0x0A] @ line_completed_b)
       = [line_done_a, line_completed_b]
   \<and> convertSseToJson examplePlatform
        (response200 [line_done_a @ [CHR 0x0A] @ line_completed_b]) []
       = Inr \<lparr>status = 200, statusText = ''OK'',
              headers = [(''content-type'', ''application/json; charset=utf-8'')],
              body = Stream [JSON_stringify examplePlatform (JObj [(''id'', JStr ''a'')])]\<rparr>
   \<and> JSON_stringify examplePlatform (JObj [(''id'', JStr ''a'')])
       \<noteq> JSON_stringify examplePlatform (JObj [(''id'', JStr ''b'')])
   \<and> isCompletionLine examplePlatform line_completed_null
   \<and> lineResponse examplePlatform line_completed_null = Some JNull
   \<and> str_split (CHR 0x0A) line_completed_null = [line_completed_null]
   \<and> convertSseToJson examplePlatform (response200 [line_completed_null]) []
       = Inr \<lparr>status = 200, statusText = ''OK'',
              headers = [(''content-type'', ''text/plain;charset=UTF-8'')],
              body = Stream [line_completed_null]\<rparr>
   \<and> line_completed_null \<noteq> JSON_stringify examplePlatform JNull"
  by code_simp

text \<open>
  C8 (amended): take an SSE text stream of a response whose status the platform accepts
  for a response with a body (200 to 599, and none of 204, 205, 304). The converter takes
  the first line \<open>data: <json>\<close> whose JSON is an event of type \<open>response.done\<close> or
  \<open>response.completed\<close>. When the \<open>response\<close> field \<open>R\<close> of that event is truthy, it emits
  one response with the original status, content type \<open>application/json; charset=utf-8\<close>
  and body \<open>JSON.stringify(R)\<close>. When that field is absent or falsy, and when no line of
  the stream carries such an event, it emits the raw concatenated text with the original
  status.
\<close>

theorem convertSseToJson_first_completion:
  assumes "body response = Stream chunks"
    and "200 \<le> status response" and "status response \<le> 599"
    and "status response \<notin> {204, 205, 304}"
  shows "(str_split (CHR 0x0A) (concat chunks) = pre @ l # post
            \<and> (\<forall>x\<in>set pre. \<not> isCompletionLine pf x) \<and> isCompletionLine pf l
            \<and> lineResponse pf l = Some R \<and> truthy (Some R)
          \<longrightarrow> convertSseToJson pf response hdrs =
                Inr \<lparr>status = status response, statusText = statusText response,
                     headers = headers_set hdrs ''content-type'' ''application/json; charset=utf-8'',
                     body = Stream [JSON_stringify pf R]\<rparr>)
       \<and> (str_split (CHR 0x0A) (concat chunks) = pre @ l # post
            \<and> (\<forall>x\<in>set pre. \<not> isCompletionLine pf x) \<and> isCompletionLine pf l
            \<and> \<not> truthy (lineResponse pf l)
          \<longrightarrow> (\<exists>hs. convertSseToJson pf response hdrs =
                Inr \<lparr>status = status response, statusText = statusText response,
                     headers = hs, body = Stream [concat chunks]\<rparr>))
       \<and> ((\<forall>x\<in>set (str_split (CHR 0x0A) (concat chunks)). \<not> isCompletionLine pf x)
          \<longrightarrow> (\<exists>hs. convertSseToJson pf response hdrs =
                Inr \<lparr>status = status response, statusText = statusText response,
                     headers = hs, body = Stream [concat chunks]\<rparr>))"
proof (intro conjI impI)
  have ok: "\<not> (status response < 200 \<or> 599 < status response)"
    "\<not> nullBodyStatus (status response)"
    using assms(2,3,4) by (auto simp: nullBodyStatus_def)
  {
    assume h: "str_split (CHR 0x0A) (concat chunks) = pre @ l # post
              \<and> (\<forall>x\<in>set pre. \<not> isCompletionLine pf x) \<and> isCompletionLine pf l
              \<and> lineResponse pf l = Some R \<and> truthy (Some R)"
    then have "parseSseStream pf (concat chunks) = Some R"
      by (simp add: parseSseStream_def parseSseLines_find find_first_after)
    then show "convertSseToJson pf response hdrs =
                  Inr \<lparr>status = status response, statusText = statusText response,
                       headers = headers_set hdrs ''content-type'' ''application/json; charset=utf-8'',
                       body = Stream [JSON_stringify pf R]\<rparr>"
      using assms(1) h ok
      by (simp add: convertSseToJson_def newResponse_def Let_def headers_has_set)
  }
  {
    assume h: "str_split (CHR 0x0A) (concat chunks) = pre @ l # post
              \<and> (\<forall>x\<in>set pre. \<not> isCompletionLine pf x) \<and> isCompletionLine pf l
              \<and> \<not> truthy (lineResponse pf l)"
    then have "parseSseStream pf (concat chunks) = lineResponse pf l"
      by (simp add: parseSseStream_def parseSseLines_find find_first_after)
    then show "\<exists>hs. convertSseToJson pf response hdrs =
                  Inr \<lparr>status = status response, statusText = statusText response,
                       headers = hs, body = Stream [concat chunks]\<rparr>"
      using assms(1) h ok
      by (simp add: convertSseToJson_def newResponse_def Let_def)
  }
  {
    assume "\<forall>x\<in>set (str_split (CHR 0x0A) (concat chunks)). \<not> isCompletionLine pf x"
    then have "parseSseStream pf (concat chunks) = Some JNull"
      by (simp add: parseSseStream_def parseSseLines_find find_nowhere)
    then show "\<exists>hs. convertSseToJson pf response hdrs =
                  Inr \<lparr>status = status response, statusText = statusText response,
                       headers = hs, body = Stream [concat chunks]\<rparr>"
      using assms(1) ok
      by (simp add: convertSseToJson_def newResponse_def Let_def)
  }
qed

theorem convertSseToJson_first_completion_witness:
  "convertSseToJson examplePlatform
      (response200 [line_delta @ [CHR 0x0A], line_completed_b @ [CHR 0x0A]]) []
     = Inr \<lparr>status = 200, statusText = ''OK'',
            headers = headers_set [] ''content-type'' ''application/json; charset=utf-8'',
            body = Stream [JSON_stringify examplePlatform (JObj [(''id'', JStr ''b'')])]\<rparr>
   \<and> status (response200 [line_delta @ [CHR 0x0A]]) = 200
   \<and> (\<exists>hs. convertSseToJson examplePlatform (response200 [line_delta @ [CHR 0x0A]]) []
     = Inr \<lparr>status = 200, statusText = ''OK'', headers = hs,
            body = Stream [concat [line_delta @ [CHR 0x0A]]]\<rparr>)
   \<and> (\<exists>hs. convertSseToJson examplePlatform
        (response200 [line_delta @ [CHR 0x0A], line_completed_null]) []
     = Inr \<lparr>status = 200, statusText = ''OK'', headers = hs,
            body = Stream [concat [line_delta @ [CHR 0x0A], line_completed_null]]\<rparr>)"
proof -
  have b: "\<And>cs. body (response200 cs) = Stream cs"
    and st: "\<And>cs. status (response200 cs) = 200" "\<And>cs. statusText (response200 cs) = ''OK''"
    by (simp_all add: response200_def)
  have r: "\<And>cs. 200 \<le> status (response200 cs)" "\<And>cs. status (response200 cs) \<le> 599"
    "\<And>cs. status (response200 cs) \<notin> {204, 205, 304}"
    by (simp_all add: st)
  have h1: "str_split (CHR 0x0A) (concat [line_delta @ [CHR 0x0A], line_completed_b @ [CHR 0x0A]])
              = [line_delta] @ line_completed_b # [[]]
            \<and> (\<forall>x\<in>set [line_delta]. \<not> isCompletionLine examplePlatform x)
            \<and> isCompletionLine examplePlatform line_completed_b
            \<and> lineResponse examplePlatform line_completed_b = Some (JObj [(''id'', JStr ''b'')])
            \<and> truthy (Some (JObj [(''id'', JStr ''b'')]))"
    by code_simp
  have h2: "\<forall>x\<in>set (str_split (CHR 0x0A) (concat [line_delta @ [CHR 0x0A]])).
              \<not> isCompletionLine examplePlatform x"
    by code_simp
  have h3: "str_split (CHR 0x0A) (concat [line_delta @ [CHR 0x0A], line_completed_null])
              = [line_delta] @ line_completed_null # []
            \<and> (\<forall>x\<in>set [line_delta]. \<not> isCompletionLine examplePlatform x)
            \<and> isCompletionLine examplePlatform line_completed_null
            \<and> \<not> truthy (lineResponse examplePlatform line_completed_null)"
    by code_simp
  note t1 = convertSseToJson_first_completion[OF b r,
        of "[line_delta @ [CHR 0x0A], line_completed_b @ [CHR 0x0A]]"
        "[line_delta]" line_completed_b "[[]]" examplePlatform "JObj [(''id'', JStr ''b'')]" "[]"]
  note t2 = convertSseToJson_first_completion[OF b r, of "[line_delta @ [CHR 0x0A]]"
        "[]" "[]" "[]" examplePlatform JNull "[]"]
  note t3 = convertSseToJson_first_completion[OF b r,
        of "[line_delta @ [CHR 0x0A], line_completed_null]"
        "[line_delta]" line_completed_null "[]" examplePlatform JNull "[]"]
  have a1: "convertSseToJson examplePlatform
      (response200 [line_delta @ [CHR 0x0A], line_completed_b @ [CHR 0x0A]]) []
     = Inr \<lparr>status = 200, statusText = ''OK'',
            headers = headers_set [] ''content-type'' ''application/json; charset=utf-8'',
            body = Stream [JSON_stringify examplePlatform (JObj [(''id'', JStr ''b'')])]\<rparr>"
    using t1 h1 unfolding st by blast
  have a2: "\<exists>hs. convertSseToJson examplePlatform (response200 [line_delta @ [CHR 0x0A]]) []
     = Inr \<lparr>status = 200, statusText = ''OK'', headers = hs,
            body = Stream [concat [line_delta @ [CHR 0x0A]]]\<rparr>"
    using t2 h2 unfolding st by blast
  have a3: "\<exists>hs. convertSseToJson examplePlatform
        (response200 [line_delta @ [CHR 0x0A], line_completed_null]) []
     = Inr \<lparr>status = 200, statusText = ''OK'', headers = hs,
            body = Stream [concat [line_delta @ [CHR 0x0A], line_completed_null]]\<rparr>"
    using t3 h3 unfolding st by blast
  show ?thesis using a1 a2 a3 st(1) by blast
qed


section \<open>C3: orphan repair\<close>

lemma collect_fold:
  "fold (\<lambda>item (functionCallIds, localShellCallIds, customToolCallIds).
             case getCallId item of
               None \<Rightarrow> (functionCallIds, localShellCallIds, customToolCallIds)
             | Some callId \<Rightarrow>
                 if item_type item = ''function_call''
                   then (insert callId functionCallIds, localShellCallIds, customToolCallIds)
                 else if item_type item = ''local_shell_call''
                   then (functionCallIds, insert callId localShellCallIds, customToolCallIds)
                 else if item_type item = ''custom_tool_call''
                   then (functionCallIds, localShellCallIds, insert callId customToolCallIds)
                 else (functionCallIds, localShellCallIds, customToolCallIds))
          inp (A, B, C)
   = (A \<union> callIdsOfType ''function_call'' inp, B \<union> callIdsOfType ''local_shell_call'' inp,
      C \<union> callIdsOfType ''custom_tool_call'' inp)"
proof (induction inp arbitrary: A B C)
  case Nil
  then show ?case by (simp add: callIdsOfType_def)
next
  case (Cons item rest)
  show ?case
    by (cases "getCallId item") (auto simp: Cons callIdsOfType_def)
qed

lemma collectCallIds_eq:
  "collectCallIds inp =
     (callIdsOfType ''function_call'' inp, callIdsOfType ''local_shell_call'' inp,
      callIdsOfType ''custom_tool_call'' inp)"
  unfolding collectCallIds_def collect_fold by simp

lemma mapItems_total: "(\<forall>x\<in>set xs. f x = Inr (g x)) \<Longrightarrow> mapItems f xs = Inr (map g xs)"
  by (induction xs) auto

lemma missingFrom_Un: "missingFrom c (A \<union> B) \<longleftrightarrow> missingFrom c A \<and> missingFrom c B"
  by (cases c) (auto simp: missingFrom_def)

lemma convertOrphanedOutputToMessage_eq:
  "item_output item \<noteq> None \<Longrightarrow>
   convertOrphanedOutputToMessage pf item (getCallId item) = Inr (orphanMessage pf item)"
  by (cases "item_output item")
     (simp_all add: convertOrphanedOutputToMessage_def orphanMessage_def outputText_def Let_def)

lemma normalizeItem_eq:
  assumes "isOrphan inp item \<longrightarrow> item_output item \<noteq> None"
  shows "normalizeItem pf (collectCallIds inp) item
         = Inr (if isOrphan inp item then orphanMessage pf item else item)"
  using assms
  unfolding collectCallIds_eq normalizeItem_def isOrphan_def missingFrom_Un
  by (auto simp: Let_def convertOrphanedOutputToMessage_eq missingFrom_def)

text \<open>
  C3 (as stated): an output item is rewritten exactly when its call id is missing or absent
  from the ids of the items of the matching call type, \<open>function_call\<close> for
  \<open>function_call_output\<close>. This fails: a \<open>function_call_output\<close> whose call id belongs to a
  \<open>local_shell_call\<close> item is kept as it is.
\<close>

theorem normalizeOrphanedToolOutputs_shell_counterexample:
  "claimedOrphan [shellCallX, functionOutput ''X''] (functionOutput ''X'')
   \<and> normalizeOrphanedToolOutputs examplePlatform [shellCallX, functionOutput ''X'']
      = Inr [shellCallX, functionOutput ''X'']"
  by code_simp

text \<open>
  C3 (amended): for every input-item sequence in which each item to be rewritten has an
  \<open>output\<close> property, orphan repair returns the sequence with each item of type
  \<open>function_call_output\<close>, \<open>local_shell_call_output\<close> or \<open>custom_tool_call_output\<close> replaced
  by the assistant message \<open>[Previous <toolName> result; call_id=<id|unknown>]: <output>\<close>
  (output as a string, cut at 16000 characters with the suffix \<open>\n...[truncated]\<close>) exactly
  when its call id is missing or absent from the ids of the matching call items, which are
  the \<open>function_call\<close> and \<open>local_shell_call\<close> items for a \<open>function_call_output\<close>, the
  \<open>local_shell_call\<close> items for a \<open>local_shell_call_output\<close> and the \<open>custom_tool_call\<close> items
  for a \<open>custom_tool_call_output\<close>; every other item is returned unchanged. A call id is
  missing when it is not a string or is blank after \<open>trim\<close>; call ids are compared after
  \<open>trim\<close>, which removes the white space of ECMAScript, the no-break space included.
\<close>

theorem normalizeOrphanedToolOutputs_rewrites:
  assumes "\<forall>item\<in>set inp. isOrphan inp item \<longrightarrow> item_output item \<noteq> None"
  shows "normalizeOrphanedToolOutputs pf inp
         = Inr (map (\<lambda>item. if isOrphan inp item then orphanMessage pf item else item) inp)"
  unfolding normalizeOrphanedToolOutputs_def
  using assms by (intro mapItems_total) (simp add: normalizeItem_eq)

theorem normalizeOrphanedToolOutputs_rewrites_witness:
  "normalizeOrphanedToolOutputs examplePlatform [functionCallX, functionOutput ''Y'']
   = Inr [functionCallX,
          \<lparr>item_id = None, item_type = ''message'', role = Some ''assistant'',
           content = Some (JStr ''[Previous tool result; call_id=Y]: hi''),
           call_id = None, name = None, item_output = None, extras = []\<rparr>]
   \<and> normalizeOrphanedToolOutputs examplePlatform
        [functionCallX\<lparr>call_id := Some (JStr (''X'' @ [CHR 0xA0]))\<rparr>, functionOutput ''X'']
     = Inr [functionCallX\<lparr>call_id := Some (JStr (''X'' @ [CHR 0xA0]))\<rparr>, functionOutput ''X'']
   \<and> normalizeOrphanedToolOutputs examplePlatform [functionCallX, functionOutput [CHR 0xA0]]
     = Inr [functionCallX,
          \<lparr>item_id = None, item_type = ''message'', role = Some ''assistant'',
           content = Some (JStr ''[Previous tool result; call_id=unknown]: hi''),
           call_id = None, name = None, item_output = None, extras = []\<rparr>]"
proof -
  let ?i1 = "[functionCallX, functionOutput ''Y'']"
  let ?i2 = "[functionCallX\<lparr>call_id := Some (JStr (''X'' @ [CHR 0xA0]))\<rparr>, functionOutput ''X'']"
  let ?i3 = "[functionCallX, functionOutput [CHR 0xA0]]"
  have h1: "\<forall>item\<in>set ?i1. isOrphan ?i1 item \<longrightarrow> item_output item \<noteq> None"
    by code_simp
  have h2: "\<forall>item\<in>set ?i2. isOrphan ?i2 item \<longrightarrow> item_output item \<noteq> None"
    by code_simp
  have h3: "\<forall>item\<in>set ?i3. isOrphan ?i3 item \<longrightarrow> item_output item \<noteq> None"
    by code_simp
  have m1: "map (\<lambda>item. if isOrphan ?i1 item then orphanMessage examplePlatform item else item) ?i1
           = [functionCallX,
              \<lparr>item_id = None, item_type = ''message'', role = Some ''assistant'',
               content = Some (JStr ''[Previous tool result; call_id=Y]: hi''),
               call_id = None, name = None, item_output = None, extras = []\<rparr>]"
    by code_simp
  have m2: "map (\<lambda>item. if isOrphan ?i2 item then orphanMessage examplePlatform item else item) ?i2
           = ?i2"
    by code_simp
  have m3: "map (\<lambda>item. if isOrphan ?i3 item then orphanMessage examplePlatform item else item) ?i3
           = [functionCallX,
              \<lparr>item_id = None, item_type = ''message'', role = Some ''assistant'',
               content = Some (JStr ''[Previous tool result; call_id=unknown]: hi''),
               call_id = None, name = None, item_output = None, extras = []\<rparr>]"
    by code_simp
  show ?thesis
    using normalizeOrphanedToolOutputs_rewrites[OF h1, of examplePlatform]
      normalizeOrphanedToolOutputs_rewrites[OF h2, of examplePlatform]
      normalizeOrphanedToolOutputs_rewrites[OF h3, of examplePlatform]
    unfolding m1 m2 m3 by simp
qed


section \<open>C4: the transformer and the body it is given\<close>

lemma transformInput_frame:
  "\<exists>r i. transformInput pf env cm b = (r, b\<lparr>input := i\<rparr>)
         \<and> (input b = None \<longrightarrow> r = None \<and> i = None)"
  unfolding transformInput_def
  by (auto simp: Let_def split: option.splits sum.splits)

lemma resolveInclude_has: "''reasoning.encrypted_content'' \<in> set (resolveInclude mc b)"
  by (simp add: resolveInclude_def Let_def)

text \<open>
  C4 (as stated): the transformer returns a new body and leaves the object it was given
  unmodified. This fails: \<open>transformRequestBody\<close> assigns to the fields of its argument and
  returns the argument. For the body at address 0 below, the call returns address 0, and the
  object at address 0 has another \<open>model\<close> and no \<open>max_output_tokens\<close> any more.
\<close>

theorem transformRequestBody_mutates_counterexample:
  "fst (transformRequestBody examplePlatform examplePrompts exampleHeap 0 ''SYS'' exampleConfig True)
     = Inr 0
   \<and> model (exampleHeap 0) = Some (ModelName ''gpt-5'')
   \<and> model (snd (transformRequestBody examplePlatform examplePrompts exampleHeap 0 ''SYS''
                   exampleConfig True) 0) = Some (ModelName ''gpt-5.1'')
   \<and> max_output_tokens (exampleHeap 0) = Some 1024
   \<and> max_output_tokens (snd (transformRequestBody examplePlatform examplePrompts exampleHeap 0
                   ''SYS'' exampleConfig True) 0) = None"
  by code_simp

text \<open>
  C4 (amended): for every request body, the transformer updates the body object it was given
  in place and, when it returns, returns that same object; no other object changes. When
  the \<open>model\<close> of the body is a string or absent, the object has after the call the value
  of \<open>normalizeModel\<close> as its \<open>model\<close>, \<open>store = false\<close>, \<open>stream = true\<close> and the given
  \<open>instructions\<close>. When the call returns, \<open>reasoning\<close> and \<open>text\<close> are set, \<open>include\<close>
  contains \<open>reasoning.encrypted_content\<close>, and \<open>max_output_tokens\<close> and
  \<open>max_completion_tokens\<close> are cleared. On a body without \<open>input\<close> the call returns when
  \<open>normalizeModel\<close> gives a model name, and throws a \<open>TypeError\<close> when it gives a member
  that \<open>MODEL_MAP\<close> inherits from \<open>Object.prototype\<close> (model \<open>constructor\<close>, for one).
\<close>

theorem transformRequestBody_in_place:
  "(let res = transformRequestBody pf env h a codexInstructions userConfig codexMode;
        b' = snd res a
    in snd res = h(a := b')
     \<and> (fst res = Inr a \<or> (\<exists>e. fst res = Inl e))
     \<and> (fst res = Inr a \<longrightarrow>
           reasoning b' \<noteq> None \<and> text_cfg b' \<noteq> None
           \<and> (\<exists>incl. include_list b' = Some incl \<and> ''reasoning.encrypted_content'' \<in> set incl)
           \<and> max_output_tokens b' = None \<and> max_completion_tokens b' = None)
     \<and> ((\<forall>k. model (h a) \<noteq> Some (InheritedMember k)) \<longrightarrow>
           model b' = Some (normalizeModel (modelString (model (h a))))
           \<and> store b' = Some False \<and> stream b' = Some True
           \<and> instructions b' = Some codexInstructions
           \<and> (input (h a) = None \<longrightarrow>
                 input b' = None
                 \<and> (case normalizeModel (modelString (model (h a))) of
                       ModelName n \<Rightarrow> fst res = Inr a
                     | InheritedMember k \<Rightarrow> fst res = Inl TypeError))))"
proof (cases "\<exists>k. model (h a) = Some (InheritedMember k)")
  case True
  then obtain k where k: "model (h a) = Some (InheritedMember k)" by auto
  have "transformRequestBody pf env h a codexInstructions userConfig codexMode = (Inl TypeError, h)"
    using k by (simp add: transformRequestBody_def Let_def)
  then show ?thesis using k by (simp add: Let_def)
next
  case False
  let ?nm = "normalizeModel (modelString (model (h a)))"
  let ?b0 = "(h a)\<lparr>model := Some ?nm, store := Some False,
                 stream := Some True, instructions := Some codexInstructions\<rparr>"
  obtain r i where t: "transformInput pf env codexMode ?b0 = (r, ?b0\<lparr>input := i\<rparr>)"
    and n: "input ?b0 = None \<longrightarrow> r = None \<and> i = None"
    using transformInput_frame[of pf env codexMode ?b0] by auto
  have notInh: "\<And>k. model (h a) \<noteq> Some (InheritedMember k)" using False by auto
  show ?thesis
  proof (cases r)
    case None
    then show ?thesis using t n notInh
      by (cases "model (h a)"; cases ?nm; cases "the (model (h a))")
         (simp_all add: transformRequestBody_def Let_def resolveInclude_has)
  next
    case (Some e)
    then show ?thesis using t n notInh
      by (cases "model (h a)"; cases ?nm; cases "the (model (h a))")
         (auto simp add: transformRequestBody_def Let_def)
  qed
qed

theorem transformRequestBody_in_place_witness:
  "fst (transformRequestBody examplePlatform examplePrompts exampleHeap 0 ''SYS'' exampleConfig True)
     = Inr 0
   \<and> max_output_tokens (snd (transformRequestBody examplePlatform examplePrompts exampleHeap 0
         ''SYS'' exampleConfig True) 0) = None
   \<and> model (exampleHeap 1) = Some (ModelName ''gpt-5'')
   \<and> input (exampleHeap 1) = None
   \<and> fst (transformRequestBody examplePlatform examplePrompts exampleHeap 1 ''SYS'' exampleConfig True)
     = Inr 1
   \<and> model (snd (transformRequestBody examplePlatform examplePrompts exampleHeap 1
         ''SYS'' exampleConfig True) 1) = Some (ModelName ''gpt-5.1'')
   \<and> model (exampleHeap 2) = Some (ModelName ''constructor'')
   \<and> input (exampleHeap 2) = None
   \<and> normalizeModel (Some ''constructor'') = InheritedMember ''constructor''
   \<and> fst (transformRequestBody examplePlatform examplePrompts exampleHeap 2 ''SYS'' exampleConfig True)
     = Inl TypeError
   \<and> model (snd (transformRequestBody examplePlatform examplePrompts exampleHeap 2
         ''SYS'' exampleConfig True) 2) = Some (InheritedMember ''constructor'')"
proof -
  have r0: "fst (transformRequestBody examplePlatform examplePrompts exampleHeap 0 ''SYS''
                  exampleConfig True) = Inr 0"
    by code_simp
  have m1: "model (exampleHeap 1) = Some (ModelName ''gpt-5'')"
    by code_simp
  have i1: "input (exampleHeap 1) = None"
    by code_simp
  have n1: "normalizeModel (Some ''gpt-5'') = ModelName ''gpt-5.1''"
    by code_simp
  have m2: "model (exampleHeap 2) = Some (ModelName ''constructor'')"
    by code_simp
  have i2: "input (exampleHeap 2) = None"
    by code_simp
  have n2: "normalizeModel (Some ''constructor'') = InheritedMember ''constructor''"
    by code_simp
  note t0 = transformRequestBody_in_place[of examplePlatform examplePrompts exampleHeap 0 "''SYS''"
        exampleConfig True, unfolded Let_def]
  note t1 = transformRequestBody_in_place[of examplePlatform examplePrompts exampleHeap 1 "''SYS''"
        exampleConfig True, unfolded Let_def]
  note t2 = transformRequestBody_in_place[of examplePlatform examplePrompts exampleHeap 2 "''SYS''"
        exampleConfig True, unfolded Let_def]
  have a0: "max_output_tokens (snd (transformRequestBody examplePlatform examplePrompts exampleHeap 0
         ''SYS'' exampleConfig True) 0) = None"
    using t0 r0 by blast
  have a1: "fst (transformRequestBody examplePlatform examplePrompts exampleHeap 1 ''SYS''
                  exampleConfig True) = Inr 1
      \<and> model (snd (transformRequestBody examplePlatform examplePrompts exampleHeap 1
         ''SYS'' exampleConfig True) 1) = Some (ModelName ''gpt-5.1'')"
    using t1 m1 i1 n1 by (simp add: modelString_def)
  have a2: "fst (transformRequestBody examplePlatform examplePrompts exampleHeap 2 ''SYS''
                  exampleConfig True) = Inl TypeError
      \<and> model (snd (transformRequestBody examplePlatform examplePrompts exampleHeap 2
         ''SYS'' exampleConfig True) 2) = Some (InheritedMember ''constructor'')"
    using t2 m2 i2 n2 by (simp add: modelString_def)
  show ?thesis using r0 a0 m1 i1 a1 m2 i2 n2 a2 by simp
qed


section \<open>C1: the switch threshold of hybrid selection\<close>

lemma hd_sort_key_min:
  assumes "sort_key f xs = y # ys"
  shows "y \<in> set xs \<and> (\<forall>x\<in>set xs. f y \<le> f x)"
proof -
  have s: "sorted (map f (y # ys))" using sorted_sort_key[of f xs] assms by simp
  have e: "set (y # ys) = set xs" using set_sort[of f xs] assms by simp
  from s have "\<forall>x\<in>set ys. f y \<le> f x" by auto
  then have "\<forall>x\<in>set (y # ys). f y \<le> f x" by auto
  with e show ?thesis by auto
qed

lemma find_Some_props: "find P xs = Some x \<Longrightarrow> P x \<and> x \<in> set xs"
  by (induction xs) (auto split: if_splits)

lemma find_exists: "x \<in> set xs \<Longrightarrow> P x \<Longrightarrow> \<exists>y. find P xs = Some y"
  by (induction xs) auto

lemma scoreAccount_simps:
  "s_index (scoreAccount t cur now a) = m_index a"
  "isCurrent (scoreAccount t cur now a) = (Some (m_index a) = cur)"
  "baseScore (scoreAccount t cur now a) = baseOf t now a"
  "s_score (scoreAccount t cur now a) = baseOf t now a + (if Some (m_index a) = cur then 150 else 0)"
  by (simp_all add: scoreAccount_def baseOf_def Let_def STICKINESS_BONUS_def)

text \<open>
  C1: when the active account \<open>c\<close> and some other account pass the candidate filter, hybrid
  selection returns an index, and it returns an index other than \<open>c\<close> only if the best base
  score among the candidates other than \<open>c\<close>, minus the base score of the active account,
  exceeds \<open>SWITCH_THRESHOLD\<close>; when that advantage is exactly \<open>SWITCH_THRESHOLD\<close> it
  returns \<open>c\<close>.
\<close>

theorem selectHybridAccount_anti_flap:
  assumes act: "a \<in> set (candidatesOf accs tt minHealthScore now)" "m_index a = c"
      and oth: "b \<in> set (candidatesOf accs tt minHealthScore now)" "m_index b \<noteq> c"
  shows "\<exists>r. selectHybridAccount accs tt (Some c) minHealthScore now = Some r
           \<and> (r \<noteq> c \<longrightarrow> bestNonActiveBase accs tt c minHealthScore now
                            - baseOf tt now a > SWITCH_THRESHOLD)
           \<and> (bestNonActiveBase accs tt c minHealthScore now
                 - baseOf tt now a = SWITCH_THRESHOLD \<longrightarrow> r = c)"
proof -
  let ?cands = "candidatesOf accs tt minHealthScore now"
  let ?sc = "scoreAccount tt (Some c) now"
  let ?scored = "sort_key (\<lambda>s. - s_score s) (map ?sc ?cands)"
  have ne: "?cands \<noteq> []" using act(1) by auto
  then have "?scored \<noteq> []" by (metis length_0_conv length_map length_sort)
  then obtain best rest where sb: "?scored = best # rest" by (cases ?scored) auto
  from hd_sort_key_min[OF sb]
  have bin: "best \<in> set (map ?sc ?cands)" and bmax: "\<forall>x\<in>set (map ?sc ?cands). s_score x \<le> s_score best"
    by auto
  from bin obtain b' where b': "b' \<in> set ?cands" "best = ?sc b'" by auto
  have "?sc a \<in> set ?scored" using act(1) by simp
  moreover have "isCurrent (?sc a)" using act(2) by (simp add: scoreAccount_simps)
  ultimately obtain cc where fc: "find isCurrent ?scored = Some cc" using find_exists by metis
  then have ccp: "isCurrent cc" "cc \<in> set ?scored" using find_Some_props by metis+
  then obtain a' where a': "a' \<in> set ?cands" "cc = ?sc a'" by auto
  have cc_idx: "s_index cc = c" using ccp(1) a' by (simp add: scoreAccount_simps)
  let ?r = "if \<not> isCurrent best \<and> baseScore best - baseScore cc < SWITCH_THRESHOLD
            then s_index cc else s_index best"
  have res: "selectHybridAccount accs tt (Some c) minHealthScore now = Some ?r"
    using ne sb fc by (simp add: selectHybridAccount_def candidatesOf_def[symmetric] Let_def)
  have key: "?r \<noteq> c \<Longrightarrow> bestNonActiveBase accs tt c minHealthScore now
                            - baseOf tt now a \<ge> 150"
  proof -
    assume rc: "?r \<noteq> c"
    have nb: "\<not> isCurrent best"
    proof
      assume "isCurrent best"
      then have "s_index best = c" using b' by (simp add: scoreAccount_simps)
      with rc cc_idx show False by (simp split: if_splits)
    qed
    then have bidx: "m_index b' \<noteq> c" using b' by (simp add: scoreAccount_simps)
    have sbest: "s_score best = baseOf tt now b'"
      using b' bidx by (simp add: scoreAccount_simps)
    have "s_score (?sc a) \<le> s_score best" using bmax act(1) by simp
    then have ge: "baseOf tt now a + 150 \<le> baseOf tt now b'"
      using sbest act(2) by (simp add: scoreAccount_simps)
    let ?S = "baseOf tt now ` {x \<in> set ?cands. m_index x \<noteq> c}"
    have fin: "finite ?S" by simp
    have mem: "baseOf tt now b' \<in> ?S" using b'(1) bidx by auto
    have "baseOf tt now b' \<le> Max ?S" using Max_ge[OF fin mem] .
    then show ?thesis using ge by (simp add: bestNonActiveBase_def)
  qed
  let ?D = "bestNonActiveBase accs tt c minHealthScore now - baseOf tt now a"
  have k1: "?r \<noteq> c \<longrightarrow> ?D > SWITCH_THRESHOLD"
  proof
    assume "?r \<noteq> c"
    from key[OF this] show "?D > SWITCH_THRESHOLD" by (simp add: SWITCH_THRESHOLD_def)
  qed
  have k2: "?D = SWITCH_THRESHOLD \<longrightarrow> ?r = c"
  proof (intro impI, rule ccontr)
    assume d: "?D = SWITCH_THRESHOLD" and "?r \<noteq> c"
    from key[OF this(2)] d show False by (simp add: SWITCH_THRESHOLD_def)
  qed
  show ?thesis
    using res k1 k2 by blast
qed


theorem selectHybridAccount_anti_flap_witness:
  "metricsA0 \<in> set (candidatesOf [metricsA0, metricsA1] newTokenBucketTracker 50 1000000)
   \<and> metricsA1 \<in> set (candidatesOf [metricsA0, metricsA1] newTokenBucketTracker 50 1000000)
   \<and> bestNonActiveBase [metricsA0, metricsA1] newTokenBucketTracker 0 50 1000000
        - baseOf newTokenBucketTracker 1000000 metricsA0 = SWITCH_THRESHOLD
   \<and> selectHybridAccount [metricsA0, metricsA1] newTokenBucketTracker (Some 0) 50 1000000 = Some 0
   \<and> selectHybridAccount [metricsA0, metricsA1] drainedTracker (Some 0) 50 1000000 = Some 1
   \<and> bestNonActiveBase [metricsA0, metricsA1] drainedTracker 0 50 1000000
        - baseOf drainedTracker 1000000 metricsA0 > SWITCH_THRESHOLD"
proof -
  have a: "metricsA0 \<in> set (candidatesOf [metricsA0, metricsA1] newTokenBucketTracker 50 1000000)"
    "m_index metricsA0 = 0"
    "metricsA1 \<in> set (candidatesOf [metricsA0, metricsA1] newTokenBucketTracker 50 1000000)"
    "m_index metricsA1 \<noteq> 0"
    by code_simp+
  have b: "metricsA0 \<in> set (candidatesOf [metricsA0, metricsA1] drainedTracker 50 1000000)"
    "metricsA1 \<in> set (candidatesOf [metricsA0, metricsA1] drainedTracker 50 1000000)"
    by code_simp+
  have d: "bestNonActiveBase [metricsA0, metricsA1] newTokenBucketTracker 0 50 1000000
        - baseOf newTokenBucketTracker 1000000 metricsA0 = SWITCH_THRESHOLD"
    by code_simp
  have e: "selectHybridAccount [metricsA0, metricsA1] drainedTracker (Some 0) 50 1000000 = Some 1"
    by code_simp
  show ?thesis
    using a b d e
      selectHybridAccount_anti_flap[OF a(1) a(2) a(3) a(4)]
      selectHybridAccount_anti_flap[OF b(1) a(2) b(2) a(4)]
    by auto
qed

section \<open>C6: usable accounts and the fallback\<close>

lemma resetsBefore_trans: "resetsBefore a b \<Longrightarrow> resetsBefore b c \<Longrightarrow> resetsBefore a c"
  by (auto simp: resetsBefore_def split: option.splits)
















section \<open>C10: the duplicate branch of addAccount\<close>

lemma findIndex_Some:
  "findIndex p xs = Some i \<Longrightarrow> i < length xs \<and> p (xs ! i) \<and> (\<forall>j<i. \<not> p (xs ! j))"
proof (induction xs arbitrary: i)
  case Nil
  then show ?case by simp
next
  case (Cons x xs)
  show ?case
  proof (cases "p x")
    case True
    then show ?thesis using Cons.prems by simp
  next
    case False
    then obtain k where k: "findIndex p xs = Some k" "i = Suc k" using Cons.prems by auto
    from Cons.IH[OF k(1)] False k(2) show ?thesis
      by (auto simp: nth_Cons split: nat.splits)
  qed
qed

lemma findIndex_None: "findIndex p xs = None \<longleftrightarrow> (\<forall>x\<in>set xs. \<not> p x)"
  by (induction xs) auto

text \<open>
  C10: when \<open>addAccount\<close> finds an account that matches the tokens (equal refresh token, or
  the account id of the token present and equal), at position \<open>i\<close> of the account list it
  has after loading, then it returns \<open>i\<close>, the list keeps its length, every other account
  is unchanged, the matched account keeps its \<open>addedAt\<close>, \<open>lastUsed\<close> and \<open>index\<close>, and the
  active index is unchanged. The matched account is updated: it gets the refresh token, the
  access token and the expiry of the given tokens, the account id of the access token, and
  the email of the access token when that is not empty (else it keeps its email); it is
  enabled, its failure count is 0 and its rate limit is cleared. The health score stored for
  position \<open>i\<close> is dropped and no other health score changes; nothing else of the manager
  changes; the file written is the save of the new manager.
\<close>

theorem addAccount_duplicate_in_place:
  assumes "findIndex (matchesTokens (refresh toks) (tokenAccountId decodeJWT toks))
             (accounts (load m0 file)) = Some i"
  shows "(let m = load m0 file;
              idx = fst (addAccount decodeJWT m0 file toks now);
              m' = fst (snd (addAccount decodeJWT m0 file toks now));
              saved = snd (snd (addAccount decodeJWT m0 file toks now));
              old = accounts m ! i;
              new = accounts m' ! i
          in idx = i \<and> i < length (accounts m)
             \<and> matchesTokens (refresh toks) (tokenAccountId decodeJWT toks) old
             \<and> length (accounts m') = length (accounts m)
             \<and> (\<forall>j<length (accounts m). j \<noteq> i \<longrightarrow> accounts m' ! j = accounts m ! j)
             \<and> addedAt new = addedAt old
             \<and> lastUsed new = lastUsed old
             \<and> index new = index old
             \<and> (index old = i \<longrightarrow> index (accounts m' ! idx) = idx)
             \<and> activeIndex m' = activeIndex m
             \<and> refreshToken new = refresh toks
             \<and> accessToken new = Some (access toks)
             \<and> accessTokenExpires new = Some (expires toks)
             \<and> accountId new = tokenAccountId decodeJWT toks
             \<and> email new = (case tokenEmail decodeJWT toks of
                               None \<Rightarrow> email old
                             | Some e \<Rightarrow> if e = [] then email old else Some e)
             \<and> enabled new
             \<and> consecutiveFailures new = 0
             \<and> rateLimitResetTime new = None
             \<and> rateLimitReason new = None
             \<and> scores (healthTracker m') i = None
             \<and> (\<forall>j. j \<noteq> i \<longrightarrow> scores (healthTracker m') j = scores (healthTracker m) j)
             \<and> m' = m\<lparr>accounts := accounts m', healthTracker := healthTracker m'\<rparr>
             \<and> healthTracker m' = (healthTracker m)\<lparr>scores := scores (healthTracker m')\<rparr>
             \<and> saved = saveToDisk m')"
  using assms findIndex_Some[OF assms]
  by (simp add: addAccount_def Let_def health_reset_def orElse_def split: option.splits)


theorem addAccount_duplicate_in_place_witness:
  "findIndex (matchesTokens (refresh tokensA2) (tokenAccountId exampleDecode tokensA2))
      (accounts (load limitedManager Absent)) = Some 0
   \<and> fst (addAccount exampleDecode limitedManager Absent tokensA2 9000) = 0
   \<and> length (accounts (fst (snd (addAccount exampleDecode limitedManager Absent tokensA2 9000)))) = 2
   \<and> addedAt (accounts (fst (snd (addAccount exampleDecode limitedManager Absent tokensA2 9000))) ! 0)
       = 1000
   \<and> refreshToken (accounts (load limitedManager Absent) ! 0) = ''refresh-A''
   \<and> refreshToken
        (accounts (fst (snd (addAccount exampleDecode limitedManager Absent tokensA2 9000))) ! 0)
       = ''refresh-A2''
   \<and> accessToken
        (accounts (fst (snd (addAccount exampleDecode limitedManager Absent tokensA2 9000))) ! 0)
       = Some ''access-A2''
   \<and> accessTokenExpires
        (accounts (fst (snd (addAccount exampleDecode limitedManager Absent tokensA2 9000))) ! 0)
       = Some 6000000
   \<and> rateLimitResetTime (accounts (load limitedManager Absent) ! 0) \<noteq> None
   \<and> rateLimitResetTime
        (accounts (fst (snd (addAccount exampleDecode limitedManager Absent tokensA2 9000))) ! 0)
       = None
   \<and> refreshToken
        (accounts (fst (snd (addAccount exampleDecode limitedManager Absent tokensA2 9000))) ! 1)
       = ''refresh-B''"
proof -
  have h: "findIndex (matchesTokens (refresh tokensA2) (tokenAccountId exampleDecode tokensA2))
      (accounts (load limitedManager Absent)) = Some 0"
    by code_simp
  have l: "length (accounts (load limitedManager Absent)) = 2"
    "addedAt (accounts (load limitedManager Absent) ! 0) = 1000"
    "refreshToken (accounts (load limitedManager Absent) ! 0) = ''refresh-A''"
    "rateLimitResetTime (accounts (load limitedManager Absent) ! 0) \<noteq> None"
    "refreshToken (accounts (load limitedManager Absent) ! 1) = ''refresh-B''"
    by code_simp+
  have t: "refresh tokensA2 = ''refresh-A2''" "access tokensA2 = ''access-A2''"
    "expires tokensA2 = 6000000"
    by (simp_all add: tokensA2_def)
  show ?thesis
    using h l t addAccount_duplicate_in_place[OF h, of 9000, unfolded Let_def]
    by simp
qed

section \<open>C5: save and load\<close>

lemma update_fresh: "k \<notin> fst ` set al \<Longrightarrow> AList.update k v al = al @ [(k, v)]"
  by (induction al) auto

lemma map_of_fresh: "k \<notin> fst ` set al \<Longrightarrow> map_of al k = None"
  by (simp add: map_of_eq_None_iff)

lemma dedup_fold_distinct:
  assumes "distinct (map refreshToken xs)" "\<forall>x\<in>set xs. refreshToken x \<notin> fst ` set al"
  shows "fold dedupStep xs al = al @ map (\<lambda>a. (refreshToken a, a)) xs"
  using assms
proof (induction xs arbitrary: al)
  case Nil
  then show ?case by simp
next
  case (Cons x xs)
  have f: "refreshToken x \<notin> fst ` set al" using Cons.prems(2) by simp
  have d: "distinct (map refreshToken xs)" using Cons.prems(1) by simp
  have nx: "refreshToken x \<notin> refreshToken ` set xs" using Cons.prems(1) by simp
  have n: "\<forall>y\<in>set xs. refreshToken y \<notin> fst ` set (al @ [(refreshToken x, x)])"
  proof
    fix y assume y: "y \<in> set xs"
    then have "refreshToken y \<in> refreshToken ` set xs" by (rule imageI)
    with nx have "refreshToken y \<noteq> refreshToken x" by auto
    moreover have "refreshToken y \<notin> fst ` set al" using Cons.prems(2) y by simp
    ultimately show "refreshToken y \<notin> fst ` set (al @ [(refreshToken x, x)])" by simp
  qed
  have s: "dedupStep x al = al @ [(refreshToken x, x)]"
    by (simp add: dedupStep_def map_of_fresh[OF f] update_fresh[OF f])
  show ?case
    using Cons.IH[OF d n] by (simp add: s)
qed

lemma deduplicateAccounts_distinct:
  "distinct (map refreshToken xs) \<Longrightarrow> deduplicateAccounts xs = xs"
  unfolding deduplicateAccounts_def
  using dedup_fold_distinct[of xs "[]"] by (simp add: comp_def)

lemma map_filter_entries:
  "[] \<notin> set (map refreshToken xs) \<Longrightarrow> List.map_filter validEntry (map Entry xs) = xs"
  by (induction xs) (auto simp: List.map_filter_simps validEntry_def)

lemma roundtrip_storage:
  assumes "tokensOk xs" "xs = [] \<or> a < length xs"
  shows "loadAccounts (saveAccounts \<lparr>version = 1, st_accounts = xs, st_activeIndex = a\<rparr>)
         = \<lparr>version = 1, st_accounts = xs, st_activeIndex = (if xs = [] then 0 else a)\<rparr>"
proof -
  have v: "List.map_filter validEntry (map Entry xs) = xs"
    using assms(1) by (intro map_filter_entries) (simp add: tokensOk_def)
  have d: "deduplicateAccounts xs = xs"
    using assms(1) by (intro deduplicateAccounts_distinct) (simp add: tokensOk_def)
  have c: "xs \<noteq> [] \<Longrightarrow> nat (min (int a) (int (length xs) - 1)) = a"
    using assms(2) by auto
  show ?thesis
    unfolding loadAccounts_def saveAccounts_def
    by (simp add: v d c Let_def)
qed

lemma truncate_fields:
  "refreshToken (StoredAccount.truncate a) = refreshToken a"
  by (simp add: StoredAccount.truncate_def)

lemma extend_truncate:
  "index (a::ManagedAccount) = i \<Longrightarrow> StoredAccount.extend (StoredAccount.truncate a) \<lparr>index = i\<rparr> = a"
  by (cases a) (simp add: StoredAccount.truncate_def StoredAccount.extend_def)

lemma map_enumerate_id:
  "\<forall>i<length xs. index (xs ! i) = n + i \<Longrightarrow>
   map (\<lambda>(i, acc). StoredAccount.extend acc \<lparr>index = i\<rparr>)
       (enumerate n (map StoredAccount.truncate xs)) = (xs :: ManagedAccount list)"
proof (induction xs arbitrary: n)
  case Nil
  then show ?case by simp
next
  case (Cons x xs)
  have h: "index x = n" using Cons.prems by auto
  have t: "\<forall>i<length xs. index (xs ! i) = Suc n + i" using Cons.prems by auto
  show ?case using Cons.IH[OF t] extend_truncate[OF h] by simp
qed

lemma roundtrip_manager:
  assumes "managerInv m"
  shows "loadAccounts (saveToDisk m)
           = \<lparr>version = 1, st_accounts = map StoredAccount.truncate (accounts m),
              st_activeIndex = (case activeIndex m of Some i \<Rightarrow> i | None \<Rightarrow> 0)\<rparr>"
    and "accounts (load (newAccountManager s) (saveToDisk m)) = accounts m"
    and "activeIndex (load (newAccountManager s) (saveToDisk m)) = activeIndex m"
proof -
  let ?xs = "map StoredAccount.truncate (accounts m)"
  let ?a = "(case activeIndex m of Some i \<Rightarrow> i | None \<Rightarrow> 0)"
  have tk: "tokensOk ?xs"
    using assms by (simp add: managerInv_def tokensOk_def comp_def truncate_fields)
  have rg: "?xs = [] \<or> ?a < length ?xs"
    using assms by (auto simp: managerInv_def split: option.splits)
  have z: "(if ?xs = [] then 0 else ?a) = ?a"
    using assms by (auto simp: managerInv_def split: option.splits)
  show l: "loadAccounts (saveToDisk m)
           = \<lparr>version = 1, st_accounts = ?xs, st_activeIndex = ?a\<rparr>"
    unfolding saveToDisk_def roundtrip_storage[OF tk rg] z ..
  have ix: "\<forall>i<length (accounts m). index (accounts m ! i) = 0 + i"
    using assms by (simp add: managerInv_def)
  show "accounts (load (newAccountManager s) (saveToDisk m)) = accounts m"
    unfolding load_def l by (simp add: newAccountManager_def map_enumerate_id[OF ix])
  show "activeIndex (load (newAccountManager s) (saveToDisk m)) = activeIndex m"
    unfolding load_def l using assms
    by (auto simp: newAccountManager_def managerInv_def split: option.splits)
qed



lemma set_update_subset: "set (AList.update k v al) \<subseteq> insert (k, v) (set al)"
  by (induction al) auto

lemma pairsOk_update:
  assumes "pairsOk al" "refreshToken x \<noteq> []"
  shows "pairsOk (AList.update (refreshToken x) x al)"
proof -
  have "\<forall>p\<in>set (AList.update (refreshToken x) x al).
          fst p = refreshToken (snd p) \<and> refreshToken (snd p) \<noteq> []"
  proof
    fix p assume "p \<in> set (AList.update (refreshToken x) x al)"
    then have "p = (refreshToken x, x) \<or> p \<in> set al" using set_update_subset by fastforce
    then show "fst p = refreshToken (snd p) \<and> refreshToken (snd p) \<noteq> []"
      using assms by (auto simp: pairsOk_def)
  qed
  moreover have "distinct (map fst (AList.update (refreshToken x) x al))"
    using assms(1) by (intro distinct_update) (simp add: pairsOk_def)
  ultimately show ?thesis by (simp add: pairsOk_def)
qed

lemma pairsOk_step: "pairsOk al \<Longrightarrow> refreshToken x \<noteq> [] \<Longrightarrow> pairsOk (dedupStep x al)"
  by (simp add: dedupStep_def pairsOk_update split: option.splits)

lemma pairsOk_fold:
  "pairsOk al \<Longrightarrow> \<forall>x\<in>set xs. refreshToken x \<noteq> [] \<Longrightarrow> pairsOk (fold dedupStep xs al)"
  by (induction xs arbitrary: al) (simp_all add: pairsOk_step)

lemma map_fst_snd: "\<forall>p\<in>set al. fst p = f (snd p) \<Longrightarrow> map f (map snd al) = map fst al"
  by (induction al) auto

lemma pairsOk_tokensOk: "pairsOk al \<Longrightarrow> tokensOk (map snd al)"
proof -
  assume a: "pairsOk al"
  then have m: "map refreshToken (map snd al) = map fst al"
    by (intro map_fst_snd) (simp add: pairsOk_def)
  have "[] \<notin> refreshToken ` snd ` set al" using a by (force simp: pairsOk_def)
  then show ?thesis using a unfolding tokensOk_def m[symmetric] pairsOk_def
    by (simp add: m image_image)
qed

lemma deduplicateAccounts_ok:
  assumes "\<forall>x\<in>set xs. refreshToken x \<noteq> []"
  shows "tokensOk (deduplicateAccounts xs)"
  unfolding deduplicateAccounts_def
  by (intro pairsOk_tokensOk pairsOk_fold assms) (simp add: pairsOk_def)

lemma map_filter_valid:
  "\<forall>y\<in>set (List.map_filter validEntry es). refreshToken y \<noteq> []"
  by (induction es) (auto simp: List.map_filter_simps validEntry_def split: FileEntry.splits)

lemma loadAccounts_ok:
  "tokensOk (st_accounts (loadAccounts f))
   \<and> (st_accounts (loadAccounts f) = []
        \<or> st_activeIndex (loadAccounts f) < length (st_accounts (loadAccounts f)))"
proof (cases f)
  case Absent
  then show ?thesis by (simp add: loadAccounts_def createEmptyStorage_def tokensOk_def)
next
  case Unparsable
  then show ?thesis by (simp add: loadAccounts_def createEmptyStorage_def tokensOk_def)
next
  case (Content es ai)
  show ?thesis
  proof (cases es)
    case None
    then show ?thesis using Content
      by (simp add: loadAccounts_def createEmptyStorage_def tokensOk_def)
  next
    case (Some entries)
    let ?v = "List.map_filter validEntry entries"
    have t: "tokensOk (deduplicateAccounts ?v)"
      by (rule deduplicateAccounts_ok) (rule map_filter_valid)
    have c: "\<And>i n. n > 0 \<Longrightarrow> nat (min (max i 0) (int n - 1)) < n" by auto
    show ?thesis using Content Some t c[of "length (deduplicateAccounts ?v)"]
      by (simp add: loadAccounts_def Let_def)
  qed
qed


lemma inv_new: "managerInv (newAccountManager s)"
  by (simp add: managerInv_def newAccountManager_def tokensOk_def)

lemma inv_load: "managerInv m \<Longrightarrow> managerInv (load m file)"
proof (cases "loaded m")
  case True
  assume "managerInv m"
  then show ?thesis using True by (simp add: load_def)
next
  case False
  let ?st = "loadAccounts file"
  let ?xs = "st_accounts ?st"
  let ?accs = "map (\<lambda>(i, acc). StoredAccount.extend acc \<lparr>index = i\<rparr>) (enumerate 0 ?xs)"
  have rt: "map refreshToken ?accs = map refreshToken ?xs"
    by (rule nth_equalityI) (simp_all add: nth_enumerate_eq StoredAccount.extend_def)
  have ix: "\<forall>i<length ?accs. index (?accs ! i) = i"
    by (simp add: nth_enumerate_eq StoredAccount.extend_def)
  have tk: "tokensOk ?accs" using loadAccounts_ok[of "file"] unfolding tokensOk_def rt by simp
  have ai: "?xs = [] \<or> st_activeIndex ?st < length ?xs" using loadAccounts_ok[of "file"] by simp
  have e: "load m file = m\<lparr>accounts := ?accs,
             activeIndex := (if ?xs \<noteq> [] then Some (st_activeIndex ?st) else None),
             loaded := True\<rparr>"
    using False by (simp add: load_def Let_def)
  show ?thesis unfolding e managerInv_def using tk ix ai by auto
qed

lemma map_update_same:
  "i < length xs \<Longrightarrow> f y = f (xs ! i) \<Longrightarrow> map f (xs[i := y]) = map f xs"
  by (simp add: map_update list_update_same_conv)

lemma inv_update:
  assumes "managerInv m" "i < length (accounts m)"
    and "refreshToken y = refreshToken (accounts m ! i)" "index y = index (accounts m ! i)"
    and "accounts m' = (accounts m)[i := y]" "activeIndex m' = activeIndex m"
  shows "managerInv m'"
proof -
  have rt: "map refreshToken (accounts m') = map refreshToken (accounts m)"
    unfolding assms(5) using assms(2,3) by (rule map_update_same)
  have ix: "\<forall>j<length (accounts m'). index (accounts m' ! j) = j"
    unfolding assms(5) using assms(1,2,4) by (auto simp: managerInv_def nth_list_update)
  have ln: "length (accounts m') = length (accounts m)" unfolding assms(5) by simp
  have em: "accounts m' = [] \<longleftrightarrow> accounts m = []" using ln by auto
  show ?thesis
    using assms(1) ix unfolding managerInv_def tokensOk_def rt assms(6) ln em by simp
qed

lemma inv_recordSuccess:
  assumes "managerInv m"
  shows "managerInv (recordSuccess m i now)"
proof (cases "i < length (accounts m)")
  case True
  then have nl: "\<not> length (accounts m) \<le> i" by simp
  show ?thesis
    by (rule inv_update[OF assms True,
          where y = "(accounts m ! i)\<lparr>lastUsed := now, consecutiveFailures := 0\<rparr>"])
       (simp_all add: recordSuccess_def nl)
next
  case False
  then show ?thesis using assms by (simp add: recordSuccess_def)
qed

lemma inv_markRateLimited:
  assumes "managerInv m"
  shows "managerInv (markRateLimited m i reason now)"
proof (cases "i < length (accounts m)")
  case True
  then have nl: "\<not> length (accounts m) \<le> i" by simp
  show ?thesis
    by (rule inv_update[OF assms True,
          where y = "(accounts m ! i)
                 \<lparr>rateLimitResetTime := Some (now + calculateBackoff reason
                                                  (consecutiveFailures (accounts m ! i))),
                  rateLimitReason := Some reason,
                  consecutiveFailures := consecutiveFailures (accounts m ! i) + 1\<rparr>"])
       (simp_all add: markRateLimited_def Let_def nl)
next
  case False
  then show ?thesis using assms by (simp add: markRateLimited_def)
qed

lemma inv_recordFailure:
  assumes "managerInv m"
  shows "managerInv (recordFailure m i now)"
proof (cases "i < length (accounts m)")
  case True
  then have nl: "\<not> length (accounts m) \<le> i" by simp
  show ?thesis
    by (rule inv_update[OF assms True,
          where y = "(accounts m ! i)
                 \<lparr>enabled := (if consecutiveFailures (accounts m ! i) + 1 \<ge> 5 then False
                              else enabled (accounts m ! i)),
                  consecutiveFailures := consecutiveFailures (accounts m ! i) + 1\<rparr>"])
       (simp_all add: recordFailure_def Let_def nl)
next
  case False
  then show ?thesis using assms by (simp add: recordFailure_def)
qed


lemma distinct_update_fresh:
  assumes "distinct xs" "i < length xs" "\<forall>j<length xs. xs ! j = v \<longrightarrow> j = i"
  shows "distinct (xs[i := v])"
  unfolding distinct_conv_nth
proof (intro allI impI)
  fix a b assume ab: "a < length (xs[i := v])" "b < length (xs[i := v])" "a \<noteq> b"
  then have l: "a < length xs" "b < length xs" by simp_all
  have d: "xs ! a \<noteq> xs ! b" using assms(1) l ab(3) by (simp add: distinct_conv_nth)
  show "xs[i := v] ! a \<noteq> xs[i := v] ! b"
    using assms(2,3) l ab(3) d by (auto simp: nth_list_update)
qed

lemma inv_addAccount:
  assumes i0: "managerInv m0" and ok: "opOk d (m0, fl) (AddAccount toks now)"
  shows "managerInv (fst (snd (addAccount d m0 fl toks now)))"
proof -
  define m where "m = load m0 fl"
  have im: "managerInv m" unfolding m_def using i0 by (rule inv_load)
  then have tk: "distinct (map refreshToken (accounts m))" "[] \<notin> set (map refreshToken (accounts m))"
    and ix: "\<forall>i<length (accounts m). index (accounts m ! i) = i"
    and ai: "case activeIndex m of None \<Rightarrow> accounts m = [] | Some a \<Rightarrow> a < length (accounts m)"
    by (simp_all add: managerInv_def tokensOk_def)
  have ne: "refresh toks \<noteq> []" using ok by (simp add: opOk_def)
  have uq: "\<forall>j<length (accounts m). refreshToken (accounts m ! j) = refresh toks \<longrightarrow>
              findIndex (matchesTokens (refresh toks) (tokenAccountId d toks)) (accounts m) = Some j"
    using ok by (simp add: opOk_def Let_def m_def)
  show ?thesis
  proof (cases "findIndex (matchesTokens (refresh toks) (tokenAccountId d toks)) (accounts m)")
    case None
    then have nm: "\<forall>a\<in>set (accounts m). refreshToken a \<noteq> refresh toks"
      by (auto simp: findIndex_None matchesTokens_def)
    define new :: ManagedAccount where "new =
                   \<lparr>email = tokenEmail d toks, refreshToken = refresh toks,
                    accessToken = Some (access toks),
                    accessTokenExpires = Some (expires toks), accountId = tokenAccountId d toks,
                    addedAt = now, lastUsed = 0, enabled = True,
                    rateLimitResetTime = None, rateLimitReason = None,
                    consecutiveFailures = 0, index = length (accounts m)\<rparr>"
    define m' where "m' = (if accounts m = [] then m\<lparr>accounts := accounts m @ [new], activeIndex := Some 0\<rparr>
                           else m\<lparr>accounts := accounts m @ [new]\<rparr>)"
    have r: "fst (snd (addAccount d m0 fl toks now)) = m'"
      using None by (simp add: addAccount_def Let_def m_def[symmetric] m'_def new_def)
    have a': "accounts m' = accounts m @ [new]" by (simp add: m'_def)
    have rn: "refreshToken new = refresh toks" "index new = length (accounts m)"
      by (simp_all add: new_def)
    have t': "tokensOk (accounts m')"
      unfolding tokensOk_def a' using tk nm ne rn by auto
    have x': "\<forall>i<length (accounts m'). index (accounts m' ! i) = i"
      unfolding a' using ix rn by (auto simp: nth_append)
    have c': "case activeIndex m' of None \<Rightarrow> accounts m' = [] | Some a \<Rightarrow> a < length (accounts m')"
      using ai by (auto simp: m'_def split: option.splits)
    show ?thesis unfolding r managerInv_def using t' x' c' by simp
  next
    case (Some i)
    from findIndex_Some[OF Some] have il: "i < length (accounts m)" by simp
    define y where "y = (accounts m ! i)
                   \<lparr>email := (if orElse (tokenEmail d toks) [] \<noteq> [] then tokenEmail d toks
                              else email (accounts m ! i)),
                    refreshToken := refresh toks,
                    accessToken := Some (access toks),
                    accessTokenExpires := Some (expires toks),
                    accountId := tokenAccountId d toks,
                    enabled := True,
                    rateLimitResetTime := None,
                    rateLimitReason := None,
                    consecutiveFailures := 0\<rparr>"
    define m' where "m' = m\<lparr>accounts := (accounts m)[i := y],
                        healthTracker := health_reset (healthTracker m) i\<rparr>"
    have r: "fst (snd (addAccount d m0 fl toks now)) = m'"
      using Some by (simp add: addAccount_def Let_def m_def[symmetric] m'_def y_def)
    have a': "accounts m' = (accounts m)[i := y]" "activeIndex m' = activeIndex m"
      by (simp_all add: m'_def)
    have ry: "refreshToken y = refresh toks" "index y = index (accounts m ! i)"
      by (simp_all add: y_def)
    have mp: "map refreshToken (accounts m') = (map refreshToken (accounts m))[i := refresh toks]"
      unfolding a' by (simp add: map_update ry)
    have u: "\<forall>j<length (map refreshToken (accounts m)).
               map refreshToken (accounts m) ! j = refresh toks \<longrightarrow> j = i"
      using uq Some by auto
    have d': "distinct (map refreshToken (accounts m'))"
      unfolding mp using tk(1) il u by (intro distinct_update_fresh) simp_all
    have "set ((map refreshToken (accounts m))[i := refresh toks])
            \<subseteq> insert (refresh toks) (set (map refreshToken (accounts m)))"
      by (rule set_update_subset_insert)
    then have n': "[] \<notin> set (map refreshToken (accounts m'))"
      unfolding mp using tk(2) ne by auto
    have x': "\<forall>j<length (accounts m'). index (accounts m' ! j) = j"
      unfolding a' using ix il ry by (auto simp: nth_list_update)
    have c': "case activeIndex m' of None \<Rightarrow> accounts m' = [] | Some a \<Rightarrow> a < length (accounts m')"
      unfolding a' using ai by (auto split: option.splits)
    show ?thesis unfolding r managerInv_def tokensOk_def using d' n' x' c' by simp
  qed
qed

lemma inv_applyOp: "managerInv (fst st) \<Longrightarrow> opOk d st op \<Longrightarrow> managerInv (fst (applyOp d st op))"
proof (cases op)
  case (AddAccount toks now)
  assume "managerInv (fst st)" "opOk d st op"
  then show ?thesis using AddAccount inv_addAccount[of "fst st" d "snd st" toks now]
    by (simp add: applyOp_def)
qed (simp_all add: applyOp_def inv_recordSuccess inv_markRateLimited inv_recordFailure)

lemma inv_runOps: "managerInv (fst st) \<Longrightarrow> opsOk d st ops \<Longrightarrow> managerInv (fst (runOps d st ops))"
  unfolding runOps_def
  by (induction ops arbitrary: st) (simp_all add: inv_applyOp)

text \<open>
  C5 (as stated): after any sequence of operations, save and load give back the account set
  in memory. This fails. \<open>addAccount\<close> accepts an empty refresh token and keeps the account
  in memory, and \<open>loadAccounts\<close> discards the entry. And a token that matches the first
  account by account id while its refresh token is the one of the second account leaves two
  accounts with one refresh token in memory, which \<open>loadAccounts\<close> merges.
\<close>

theorem save_load_roundtrip_counterexample:
  "length (accounts (fst (runOps exampleDecode (newAccountManager hybrid, Absent)
                 [AddAccount tokensEmpty 1000]))) = 1
   \<and> st_accounts (loadAccounts (saveToDisk (fst (runOps exampleDecode
                 (newAccountManager hybrid, Absent) [AddAccount tokensEmpty 1000])))) = []
   \<and> length (accounts (fst (runOps exampleDecode (newAccountManager hybrid, Absent)
                 [AddAccount tokensA 1000, AddAccount tokensB 2000, AddAccount tokensCross 3000])))
       = 2
   \<and> length (st_accounts (loadAccounts (saveToDisk (fst (runOps exampleDecode
                 (newAccountManager hybrid, Absent)
                 [AddAccount tokensA 1000, AddAccount tokensB 2000, AddAccount tokensCross 3000])))))
       = 1"
  by code_simp

text \<open>
  C5 (amended): for a new Manager on any storage file and any sequence of \<open>addAccount\<close>,
  \<open>recordSuccess\<close>, \<open>markRateLimited\<close> and \<open>recordFailure\<close> operations in which every
  \<open>addAccount\<close> gets a refresh token that is not empty and that no account other than the one
  it matches holds, \<open>loadAccounts\<close> after \<open>saveToDisk\<close> returns the stored accounts of the
  Manager, in order, and its active index (0 when there is none); a new Manager that loads
  the saved file has the same accounts and the same active index.
\<close>

theorem save_load_roundtrip:
  assumes "opsOk d (newAccountManager s, file0) ops"
  shows "(let m = fst (runOps d (newAccountManager s, file0) ops) in
          loadAccounts (saveToDisk m)
            = \<lparr>version = 1, st_accounts = map StoredAccount.truncate (accounts m),
               st_activeIndex = (case activeIndex m of Some i \<Rightarrow> i | None \<Rightarrow> 0)\<rparr>
          \<and> accounts (load (newAccountManager s') (saveToDisk m)) = accounts m
          \<and> activeIndex (load (newAccountManager s') (saveToDisk m)) = activeIndex m)"
proof -
  have "managerInv (fst (runOps d (newAccountManager s, file0) ops))"
    using assms by (intro inv_runOps) (simp_all add: inv_new)
  from roundtrip_manager[OF this] show ?thesis by (simp add: Let_def)
qed


theorem save_load_roundtrip_witness:
  "opsOk exampleDecode (newAccountManager hybrid, Absent) exampleOps
   \<and> length (accounts (fst (runOps exampleDecode (newAccountManager hybrid, Absent) exampleOps))) = 2
   \<and> accounts (load (newAccountManager sticky)
        (saveToDisk (fst (runOps exampleDecode (newAccountManager hybrid, Absent) exampleOps))))
      = accounts (fst (runOps exampleDecode (newAccountManager hybrid, Absent) exampleOps))"
proof -
  have h: "opsOk exampleDecode (newAccountManager hybrid, Absent) exampleOps"
    by code_simp
  have l: "length (accounts (fst (runOps exampleDecode (newAccountManager hybrid, Absent)
             exampleOps))) = 2"
    by code_simp
  show ?thesis
    using h l save_load_roundtrip[OF h, where s' = sticky, unfolded Let_def] by simp
qed


end
